theory Spec2Isabelle
  imports Complex_Main
begin

section \<open>Server actions of the invoice dashboard (app/lib/action.ts)\<close>

text \<open>
  The module exports four server actions: \<open>createInvoice\<close>, \<open>updateInvoice\<close>,
  \<open>deleteInvoice\<close> and \<open>authenticate\<close>. Each one reads a \<open>FormData\<close>, calls at
  most one external collaborator that may throw (the SQL client or \<open>signIn\<close>) and then
  either returns a state object, returns nothing, redirects, or lets an error escape.

  The embedding makes those effects explicit. An action is a function from an
  environment (the external collaborators) and its arguments to a pair: the list of
  external calls it made, in order, and the way it ended (\<open>outcome\<close>).
\<close>

subsection \<open>JavaScript values the actions handle\<close>

text \<open>
  A JavaScript \<open>number\<close> is an IEEE 754 double. A finite double is kept as the
  rational it denotes; every operation that produces a number rounds its exact result
  with \<open>roundToDouble\<close>. The model does not tell \<open>-0\<close> from \<open>0\<close>: the actions only
  compare the amount with \<open>0\<close> and multiply it when it is positive.
\<close>

datatype number = Fin rat | NaN | Infinity | NegInfinity

text \<open>
  Rounding to the nearest double, ties to even. A double is \<open>m * 2^q\<close> with
  \<open>m < 2^53\<close> and \<open>-1074 \<le> q \<le> 971\<close>. For \<open>2^e \<le> |x| < 2^(e+1)\<close> the spacing of
  the doubles around \<open>x\<close> is \<open>2^q\<close> with \<open>q = max (e - 52) (-1074)\<close>, the lower bound
  giving the subnormal numbers; \<open>|x|\<close> is rounded to a multiple of that spacing, a
  result of \<open>2^1024\<close> or more is an infinity, and what rounds to the multiple \<open>0\<close>
  underflows to \<open>0\<close>.
\<close>

function bitLength :: "int \<Rightarrow> int" where
  "bitLength n = (if n \<le> 0 then 0 else 1 + bitLength (n div 2))"
  by pat_completeness auto
termination
  by (relation "measure nat") auto

declare bitLength.simps [simp del]

definition floorLog2 :: "rat \<Rightarrow> int" where
  "floorLog2 a =
     (if 1 \<le> a then bitLength \<lfloor>a\<rfloor> - 1 else - bitLength (\<lceil>1 / a\<rceil> - 1))"

definition pow2 :: "int \<Rightarrow> rat" where
  "pow2 e = (if 0 \<le> e then 2 ^ nat e else 1 / 2 ^ nat (- e))"

definition roundTiesToEven :: "rat \<Rightarrow> int" where
  "roundTiesToEven x =
     (let f = \<lfloor>x\<rfloor>; d = x - of_int f
      in if d < 1 / 2 then f else if 1 / 2 < d then f + 1 else if even f then f else f + 1)"

definition roundToDouble :: "rat \<Rightarrow> number" where
  "roundToDouble x =
     (if x = 0 then Fin 0
      else
        let a = \<bar>x\<bar>;
            q = max (floorLog2 a - 52) (- 1074);
            r = of_int (roundTiesToEven (a / pow2 q)) * pow2 q
        in if pow2 1024 \<le> r then (if 0 < x then Infinity else NegInfinity)
           else Fin (sgn x * r))"

text \<open>The comparisons \<open>x <= y\<close> and \<open>x > y\<close> of JavaScript; both are false on \<open>NaN\<close>.\<close>

fun num_le :: "number \<Rightarrow> number \<Rightarrow> bool" where
  "num_le NaN _ = False"
| "num_le _ NaN = False"
| "num_le NegInfinity _ = True"
| "num_le _ Infinity = True"
| "num_le (Fin a) (Fin b) = (a \<le> b)"
| "num_le (Fin _) NegInfinity = False"
| "num_le Infinity _ = False"

fun num_gt :: "number \<Rightarrow> number \<Rightarrow> bool" where
  "num_gt NaN _ = False"
| "num_gt _ NaN = False"
| "num_gt Infinity Infinity = False"
| "num_gt Infinity _ = True"
| "num_gt _ Infinity = False"
| "num_gt NegInfinity _ = False"
| "num_gt (Fin a) (Fin b) = (a > b)"
| "num_gt (Fin _) NegInfinity = True"

text \<open>
  The product \<open>x * y\<close> of JavaScript: the exact product of two finite numbers, rounded
  to a double; \<open>0 * Infinity\<close> is \<open>NaN\<close>.
\<close>

fun num_sgn :: "number \<Rightarrow> rat" where
  "num_sgn (Fin a) = sgn a"
| "num_sgn Infinity = 1"
| "num_sgn NegInfinity = - 1"
| "num_sgn NaN = 0"

fun num_times :: "number \<Rightarrow> number \<Rightarrow> number" where
  "num_times NaN _ = NaN"
| "num_times _ NaN = NaN"
| "num_times (Fin a) (Fin b) = roundToDouble (a * b)"
| "num_times x y =
     (let s = num_sgn x * num_sgn y
      in if s = 0 then NaN else if s > 0 then Infinity else NegInfinity)"

text \<open>
  An entry of a \<open>FormData\<close> is a string or a file; \<open>formData.get(name)\<close> is the first
  entry of that name, or \<open>null\<close> (here \<open>None\<close>) when there is none. A string is kept
  as the bytes of its UTF-8 encoding.
\<close>

datatype FormDataEntryValue = Str string | File

type_synonym FormData = "(string \<times> FormDataEntryValue) list"

definition formData_get :: "FormData \<Rightarrow> string \<Rightarrow> FormDataEntryValue option" where
  "formData_get formData name = map_of formData name"

text \<open>Errors that can be thrown: an \<open>AuthError\<close> with its \<open>type\<close>, or anything else.\<close>

datatype js_error = AuthError string | OtherError string

subsection \<open>The state object, the external calls and the outcome of an action\<close>

record State =
  errors :: "(string \<rightharpoonup> string list) option"
  message :: "string option"

datatype SqlStatement =
    INSERT_INTO_invoices string number string string
  | UPDATE_invoices string number string string
  | DELETE_FROM_invoices string

datatype effect =
    Sql SqlStatement
  | RevalidatePath string
  | Redirect string
  | SignIn string FormData

text \<open>
  \<open>Returned None\<close> is a return of \<open>undefined\<close>. \<open>redirect\<close> never returns: it ends
  the action in \<open>Redirected\<close>.
\<close>

datatype 'a outcome = Returned 'a | Redirected string | Thrown js_error

text \<open>
  A \<open>Date\<close>, by its UTC calendar fields (the month counted from 0, as \<open>getUTCMonth\<close>
  does). \<open>toISOString\<close> prints \<open>YYYY-MM-DDTHH:mm:ss.sssZ\<close>, the year with four
  digits from 0 to 9999 and with a sign and six digits outside.
\<close>

record Date =
  utcFullYear :: int
  utcMonth :: nat
  utcDate :: nat
  utcHours :: nat
  utcMinutes :: nat
  utcSeconds :: nat
  utcMilliseconds :: nat

definition digitChar :: "nat \<Rightarrow> char" where
  "digitChar d =
     (if d = 0 then CHR ''0'' else if d = 1 then CHR ''1'' else if d = 2 then CHR ''2''
      else if d = 3 then CHR ''3'' else if d = 4 then CHR ''4'' else if d = 5 then CHR ''5''
      else if d = 6 then CHR ''6'' else if d = 7 then CHR ''7'' else if d = 8 then CHR ''8''
      else CHR ''9'')"

fun pad :: "nat \<Rightarrow> nat \<Rightarrow> string" where
  "pad 0 n = []"
| "pad (Suc width) n = pad width (n div 10) @ [digitChar (n mod 10)]"

definition toISOString :: "Date \<Rightarrow> string" where
  "toISOString d =
     (let y = utcFullYear d
      in (if 0 \<le> y \<and> y \<le> 9999 then pad 4 (nat y)
          else (if y < 0 then ''-'' else ''+'') @ pad 6 (nat \<bar>y\<bar>))
         @ ''-'' @ pad 2 (utcMonth d + 1) @ ''-'' @ pad 2 (utcDate d)
         @ ''T'' @ pad 2 (utcHours d) @ '':'' @ pad 2 (utcMinutes d) @ '':'' @ pad 2 (utcSeconds d)
         @ ''.'' @ pad 3 (utcMilliseconds d) @ ''Z'')"

text \<open>
  The collaborators: \<open>sql\<close> answers \<open>None\<close> when the statement runs and \<open>Some e\<close>
  when it throws \<open>e\<close>; \<open>now\<close> is the server's clock, read by \<open>new Date()\<close>;
  \<open>signIn\<close> answers \<open>None\<close> when it resolves and \<open>Some e\<close> when it throws \<open>e\<close>.
  \<open>revalidatePath\<close> is taken not to throw.
\<close>

record Env =
  sql :: "SqlStatement \<Rightarrow> js_error option"
  now :: Date
  signIn :: "string \<Rightarrow> FormData \<Rightarrow> js_error option"

subsection \<open>Number(value): the coercion of \<open>z.coerce.number()\<close>\<close>

text \<open>
  \<open>Number(null)\<close> is \<open>0\<close>, \<open>Number(file)\<close> is \<open>NaN\<close>, and \<open>Number(string)\<close> reads a
  numeric literal between optional white space: the empty string is \<open>0\<close>; a decimal
  literal has an optional sign, digits with an optional fraction, and an optional
  exponent; \<open>Infinity\<close> may be signed; binary, octal and hexadecimal integers start
  with \<open>0b\<close>, \<open>0o\<close>, \<open>0x\<close> and carry no sign. Everything else is \<open>NaN\<close>. The
  value of the literal is rounded to a double.
\<close>

text \<open>
  The white space and line terminators of ECMAScript, each by its UTF-8 bytes:
  U+0009 to U+000D, U+0020, U+00A0, U+1680, U+2000 to U+200A, U+2028, U+2029, U+202F,
  U+205F, U+3000 and U+FEFF.
\<close>

definition whiteSpace :: "string list" where
  "whiteSpace =
     [CHR 0x09] # [CHR 0x0A] # [CHR 0x0B] # [CHR 0x0C] # [CHR 0x0D] # [CHR 0x20] #
     [CHR 0xC2, CHR 0xA0] #
     [CHR 0xE1, CHR 0x9A, CHR 0x80] #
     [CHR 0xE2, CHR 0x80, CHR 0x80] # [CHR 0xE2, CHR 0x80, CHR 0x81] #
     [CHR 0xE2, CHR 0x80, CHR 0x82] # [CHR 0xE2, CHR 0x80, CHR 0x83] #
     [CHR 0xE2, CHR 0x80, CHR 0x84] # [CHR 0xE2, CHR 0x80, CHR 0x85] #
     [CHR 0xE2, CHR 0x80, CHR 0x86] # [CHR 0xE2, CHR 0x80, CHR 0x87] #
     [CHR 0xE2, CHR 0x80, CHR 0x88] # [CHR 0xE2, CHR 0x80, CHR 0x89] #
     [CHR 0xE2, CHR 0x80, CHR 0x8A] #
     [CHR 0xE2, CHR 0x80, CHR 0xA8] # [CHR 0xE2, CHR 0x80, CHR 0xA9] #
     [CHR 0xE2, CHR 0x80, CHR 0xAF] #
     [CHR 0xE2, CHR 0x81, CHR 0x9F] #
     [CHR 0xE3, CHR 0x80, CHR 0x80] #
     [CHR 0xEF, CHR 0xBB, CHR 0xBF] # []"

text \<open>The white space a string starts with, and the one it ends with, if any.\<close>

definition leadingWhiteSpace :: "string \<Rightarrow> string option" where
  "leadingWhiteSpace s = find (\<lambda>w. take (length w) s = w) whiteSpace"

definition trailingWhiteSpace :: "string \<Rightarrow> string option" where
  "trailingWhiteSpace s =
     find (\<lambda>w. length w \<le> length s \<and> drop (length s - length w) s = w) whiteSpace"

function trimStart :: "string \<Rightarrow> string" where
  "trimStart s =
     (case leadingWhiteSpace s of None \<Rightarrow> s | Some w \<Rightarrow> trimStart (drop (length w) s))"
  by pat_completeness auto
termination
proof (relation "measure length")
  show "wf (measure length)" by simp
next
  fix s w :: string
  assume "leadingWhiteSpace s = Some w"
  then have w: "w \<in> set whiteSpace" and t: "take (length w) s = w"
    by (auto simp add: leadingWhiteSpace_def find_Some_iff)
  from w have "w \<noteq> []"
    by (auto simp add: whiteSpace_def)
  moreover from t have "length (take (length w) s) = length w"
    by simp
  then have "length w \<le> length s"
    by simp
  ultimately show "(drop (length w) s, s) \<in> measure length"
    by (cases w) auto
qed

function trimEnd :: "string \<Rightarrow> string" where
  "trimEnd s =
     (case trailingWhiteSpace s of
        None \<Rightarrow> s
      | Some w \<Rightarrow> trimEnd (take (length s - length w) s))"
  by pat_completeness auto
termination
proof (relation "measure length")
  show "wf (measure length)" by simp
next
  fix s w :: string
  assume "trailingWhiteSpace s = Some w"
  then have w: "w \<in> set whiteSpace" and l: "length w \<le> length s"
    by (auto simp add: trailingWhiteSpace_def find_Some_iff)
  from w have "w \<noteq> []"
    by (auto simp add: whiteSpace_def)
  with l show "(take (length s - length w) s, s) \<in> measure length"
    by (cases w) auto
qed

declare trimStart.simps [simp del]

declare trimEnd.simps [simp del]

definition trim :: "string \<Rightarrow> string" where
  "trim s = trimEnd (trimStart s)"

definition digitValue :: "char \<Rightarrow> nat option" where
  "digitValue c =
     (let n = of_char c :: nat
      in if 48 \<le> n \<and> n \<le> 57 then Some (n - 48)
         else if 97 \<le> n \<and> n \<le> 102 then Some (n - 87)
         else if 65 \<le> n \<and> n \<le> 70 then Some (n - 55)
         else None)"

definition isDigit :: "nat \<Rightarrow> char \<Rightarrow> bool" where
  "isDigit radix c = (case digitValue c of None \<Rightarrow> False | Some d \<Rightarrow> d < radix)"

definition digitsValue :: "nat \<Rightarrow> string \<Rightarrow> int" where
  "digitsValue radix ds =
     foldl (\<lambda>acc c. acc * int radix + (case digitValue c of None \<Rightarrow> 0 | Some d \<Rightarrow> int d)) 0 ds"

text \<open>Digits of the given radix, at least one: their value; otherwise nothing.\<close>

definition parseDigits :: "nat \<Rightarrow> string \<Rightarrow> int option" where
  "parseDigits radix ds =
     (if ds \<noteq> [] \<and> list_all (isDigit radix) ds then Some (digitsValue radix ds) else None)"

text \<open>The exponent part after the mantissa: absent, or \<open>e\<close>/\<open>E\<close> and a signed integer.\<close>

definition parseExponent :: "string \<Rightarrow> int option" where
  "parseExponent s =
     (case s of
        [] \<Rightarrow> Some 0
      | c # t \<Rightarrow>
          if c = CHR ''e'' \<or> c = CHR ''E'' then
            (case t of
               [] \<Rightarrow> None
             | d # u \<Rightarrow>
                 if d = CHR ''+'' then parseDigits 10 u
                 else if d = CHR ''-'' then map_option uminus (parseDigits 10 u)
                 else parseDigits 10 t)
          else None)"

definition scale10 :: "rat \<Rightarrow> int \<Rightarrow> rat" where
  "scale10 m e = (if 0 \<le> e then m * 10 ^ nat e else m / 10 ^ nat (- e))"

definition parseUnsignedDecimal :: "string \<Rightarrow> number" where
  "parseUnsignedDecimal s =
     (if s = ''Infinity'' then Infinity
      else
        let ip = takeWhile (isDigit 10) s;
            r1 = dropWhile (isDigit 10) s;
            fp = (case r1 of [] \<Rightarrow> [] | c # t \<Rightarrow> if c = CHR ''.'' then takeWhile (isDigit 10) t else []);
            r2 = (case r1 of [] \<Rightarrow> [] | c # t \<Rightarrow> if c = CHR ''.'' then dropWhile (isDigit 10) t else r1)
        in if ip = [] \<and> fp = [] then NaN
           else (case parseExponent r2 of
                   None \<Rightarrow> NaN
                 | Some e \<Rightarrow>
                     roundToDouble (scale10 (of_int (digitsValue 10 (ip @ fp))) (e - int (length fp)))))"

definition num_neg :: "number \<Rightarrow> number" where
  "num_neg x = (case x of Fin a \<Rightarrow> Fin (- a) | NaN \<Rightarrow> NaN | Infinity \<Rightarrow> NegInfinity | NegInfinity \<Rightarrow> Infinity)"

definition parseNonDecimal :: "nat \<Rightarrow> string \<Rightarrow> number" where
  "parseNonDecimal radix ds =
     (case parseDigits radix ds of None \<Rightarrow> NaN | Some n \<Rightarrow> roundToDouble (of_int n))"

definition StringToNumber :: "string \<Rightarrow> number" where
  "StringToNumber str =
     (case trim str of
        [] \<Rightarrow> Fin 0
      | c # t \<Rightarrow>
          if c = CHR ''+'' then parseUnsignedDecimal t
          else if c = CHR ''-'' then num_neg (parseUnsignedDecimal t)
          else if c = CHR ''0'' \<and> t \<noteq> [] \<and> hd t \<in> {CHR ''x'', CHR ''X''} then parseNonDecimal 16 (tl t)
          else if c = CHR ''0'' \<and> t \<noteq> [] \<and> hd t \<in> {CHR ''o'', CHR ''O''} then parseNonDecimal 8 (tl t)
          else if c = CHR ''0'' \<and> t \<noteq> [] \<and> hd t \<in> {CHR ''b'', CHR ''B''} then parseNonDecimal 2 (tl t)
          else parseUnsignedDecimal (c # t))"

definition Number :: "FormDataEntryValue option \<Rightarrow> number" where
  "Number v = (case v of None \<Rightarrow> Fin 0 | Some File \<Rightarrow> NaN | Some (Str s) \<Rightarrow> StringToNumber s)"

subsection \<open>The schema: zod's \<open>z.string\<close>, \<open>z.coerce.number().gt\<close>, \<open>z.enum\<close>, \<open>safeParse\<close>\<close>

datatype ZodIssueCode = invalid_type | invalid_enum_value | too_small

record ZodIssue =
  issue_code :: ZodIssueCode
  issue_path :: "string list"
  issue_message :: string

text \<open>
  \<open>z.string({invalid_type_error})\<close>: a string passes; \<open>null\<close> or a file is an
  \<open>invalid_type\<close> issue carrying the custom message (the value is never \<open>undefined\<close>,
  which alone would give "Required").
\<close>

definition z_string :: "string \<Rightarrow> string list \<Rightarrow> FormDataEntryValue option \<Rightarrow> ZodIssue list + string" where
  "z_string invalid_type_error path data =
     (case data of
        Some (Str s) \<Rightarrow> Inr s
      | _ \<Rightarrow> Inl [\<lparr>issue_code = invalid_type, issue_path = path, issue_message = invalid_type_error\<rparr>])"

text \<open>
  \<open>z.coerce.number().gt(value, {message})\<close>: the input becomes \<open>Number(input)\<close>;
  \<open>NaN\<close> is an \<open>invalid_type\<close> issue with zod's own message; otherwise the check
  \<open>gt\<close> adds a \<open>too_small\<close> issue when \<open>data <= value\<close>.
\<close>

definition z_coerce_number_gt ::
    "number \<Rightarrow> string \<Rightarrow> string list \<Rightarrow> FormDataEntryValue option \<Rightarrow> ZodIssue list + number" where
  "z_coerce_number_gt bound msg path data =
     (let n = Number data
      in if n = NaN then
           Inl [\<lparr>issue_code = invalid_type, issue_path = path,
                 issue_message = ''Expected number, received nan''\<rparr>]
         else if num_le n bound then
           Inl [\<lparr>issue_code = too_small, issue_path = path, issue_message = msg\<rparr>]
         else Inr n)"

text \<open>
  \<open>z.enum(values, {invalid_type_error})\<close>: a value that is not a string is an
  \<open>invalid_type\<close> issue with the custom message; a string outside \<open>values\<close> is an
  \<open>invalid_enum_value\<close> issue with zod's own message.
\<close>

definition quoted :: "string \<Rightarrow> string" where
  "quoted v = CHR 0x27 # v @ [CHR 0x27]"

fun joinValues :: "string list \<Rightarrow> string" where
  "joinValues [] = []"
| "joinValues [v] = quoted v"
| "joinValues (v # vs) = quoted v @ '' | '' @ joinValues vs"

definition z_enum ::
    "string list \<Rightarrow> string \<Rightarrow> string list \<Rightarrow> FormDataEntryValue option \<Rightarrow> ZodIssue list + string" where
  "z_enum values invalid_type_error path data =
     (case data of
        Some (Str s) \<Rightarrow>
          if s \<in> set values then Inr s
          else Inl [\<lparr>issue_code = invalid_enum_value, issue_path = path,
                     issue_message = ''Invalid enum value. Expected '' @ joinValues values @
                                     '', received '' @ quoted s\<rparr>]
      | _ \<Rightarrow> Inl [\<lparr>issue_code = invalid_type, issue_path = path, issue_message = invalid_type_error\<rparr>])"

text \<open>
  \<open>FormSchema.omit({id: true, date: true})\<close> is the object schema of the three
  remaining fields, in the order of their declaration. Every field is parsed; the
  parse succeeds when none raised an issue, and otherwise fails with all the issues
  in field order. \<open>CreateInvoice\<close> and \<open>UpdateInvoice\<close> are this same schema.
\<close>

record RawInvoice =
  raw_customerId :: "FormDataEntryValue option"
  raw_amount :: "FormDataEntryValue option"
  raw_status :: "FormDataEntryValue option"

record InvoiceData =
  customerId :: string
  amount :: number
  status :: string

definition parse_customerId :: "FormDataEntryValue option \<Rightarrow> ZodIssue list + string" where
  "parse_customerId = z_string ''Please select a customer.'' [''customerId'']"

definition parse_amount :: "FormDataEntryValue option \<Rightarrow> ZodIssue list + number" where
  "parse_amount =
     z_coerce_number_gt (Fin 0) ''Please enter an amount greater than $0.'' [''amount'']"

definition parse_status :: "FormDataEntryValue option \<Rightarrow> ZodIssue list + string" where
  "parse_status = z_enum [''pending'', ''paid''] ''Please select an invoice status.'' [''status'']"

fun issues_of :: "ZodIssue list + 'a \<Rightarrow> ZodIssue list" where
  "issues_of (Inl issues) = issues"
| "issues_of (Inr _) = []"

definition FormSchema_omit_id_date_safeParse :: "RawInvoice \<Rightarrow> ZodIssue list + InvoiceData" where
  "FormSchema_omit_id_date_safeParse raw =
     (let c = parse_customerId (raw_customerId raw);
          a = parse_amount (raw_amount raw);
          s = parse_status (raw_status raw)
      in case (c, a, s) of
           (Inr cv, Inr av, Inr sv) \<Rightarrow> Inr \<lparr>customerId = cv, amount = av, status = sv\<rparr>
         | _ \<Rightarrow> Inl (issues_of c @ issues_of a @ issues_of s))"

definition CreateInvoice_safeParse :: "RawInvoice \<Rightarrow> ZodIssue list + InvoiceData" where
  "CreateInvoice_safeParse = FormSchema_omit_id_date_safeParse"

definition UpdateInvoice_safeParse :: "RawInvoice \<Rightarrow> ZodIssue list + InvoiceData" where
  "UpdateInvoice_safeParse = FormSchema_omit_id_date_safeParse"

text \<open>
  \<open>error.flatten().fieldErrors\<close>: the issues are visited in order, and the message of
  each issue with a non-empty path is appended to the list kept under the first element
  of its path.
\<close>

definition fieldErrors :: "ZodIssue list \<Rightarrow> (string \<rightharpoonup> string list)" where
  "fieldErrors issues =
     foldl (\<lambda>m sub.
              case issue_path sub of
                [] \<Rightarrow> m
              | k # _ \<Rightarrow> m(k \<mapsto> (case m k of None \<Rightarrow> [] | Some l \<Rightarrow> l) @ [issue_message sub]))
           Map.empty issues"

subsection \<open>createInvoice, updateInvoice, deleteInvoice\<close>

text \<open>\<open>s.split('T')[0]\<close>: the part of \<open>s\<close> before its first \<open>T\<close>, all of \<open>s\<close> when it has none.\<close>

definition split_T_0 :: "string \<Rightarrow> string" where
  "split_T_0 s = takeWhile (\<lambda>c. c \<noteq> CHR ''T'') s"

definition createInvoice :: "Env \<Rightarrow> State \<Rightarrow> FormData \<Rightarrow> effect list \<times> State option outcome" where
  "createInvoice env prevState formData =
     (case CreateInvoice_safeParse
             \<lparr>raw_customerId = formData_get formData ''customerId'',
              raw_amount = formData_get formData ''amount'',
              raw_status = formData_get formData ''status''\<rparr> of
        Inl issues \<Rightarrow>
          ([], Returned (Some \<lparr>errors = Some (fieldErrors issues),
                                message = Some ''Missing Fields. Failed to Create Invoice.''\<rparr>))
      | Inr data \<Rightarrow>
          (let amountInCents = num_times (Fin 100) (amount data);
               date = split_T_0 (toISOString (now env));
               stmt = INSERT_INTO_invoices (customerId data) amountInCents (status data) date
           in case sql env stmt of
                Some error \<Rightarrow>
                  ([Sql stmt],
                   Returned (Some \<lparr>errors = None,
                                    message = Some ''Database Error: Failed to Create Invoice.''\<rparr>))
              | None \<Rightarrow>
                  ([Sql stmt, RevalidatePath ''/dashboard/invoices'', Redirect ''/dashboard/invoices''],
                   Redirected ''/dashboard/invoices'')))"

definition updateInvoice ::
    "Env \<Rightarrow> string \<Rightarrow> State \<Rightarrow> FormData \<Rightarrow> effect list \<times> State option outcome" where
  "updateInvoice env id' prevState formData =
     (case UpdateInvoice_safeParse
             \<lparr>raw_customerId = formData_get formData ''customerId'',
              raw_amount = formData_get formData ''amount'',
              raw_status = formData_get formData ''status''\<rparr> of
        Inl issues \<Rightarrow>
          ([], Returned (Some \<lparr>errors = Some (fieldErrors issues),
                                message = Some ''Missing Fields. Failed to Update Invoice.''\<rparr>))
      | Inr data \<Rightarrow>
          (let amountInCents = num_times (amount data) (Fin 100);
               stmt = UPDATE_invoices (customerId data) amountInCents (status data) id'
           in case sql env stmt of
                Some error \<Rightarrow>
                  ([Sql stmt],
                   Returned (Some \<lparr>errors = None,
                                    message = Some ''Database Error: Failed to Update Invoice.''\<rparr>))
              | None \<Rightarrow>
                  ([Sql stmt, RevalidatePath ''/dashboard/invoices'', Redirect ''/dashboard/invoices''],
                   Redirected ''/dashboard/invoices'')))"

definition deleteInvoice :: "Env \<Rightarrow> string \<Rightarrow> effect list \<times> State option outcome" where
  "deleteInvoice env id' =
     (let stmt = DELETE_FROM_invoices id'
      in case sql env stmt of
           Some error \<Rightarrow>
             ([Sql stmt],
              Returned (Some \<lparr>errors = None,
                               message = Some ''Database Error: Failed to Delete Invoice.''\<rparr>))
         | None \<Rightarrow> ([Sql stmt, RevalidatePath ''/dashboard/invoices''], Returned None))"

subsection \<open>authenticate\<close>

definition authenticate :: "Env \<Rightarrow> 'p \<Rightarrow> FormData \<Rightarrow> effect list \<times> State option outcome" where
  "authenticate env prevState formData =
     (case signIn env ''credentials'' formData of
        None \<Rightarrow> ([SignIn ''credentials'' formData], Returned None)
      | Some error \<Rightarrow>
          ([SignIn ''credentials'' formData],
           (case error of
              AuthError type \<Rightarrow>
                (if type = ''CredentialsSignin''
                 then Returned (Some \<lparr>errors = None, message = Some ''Invalid credentials.''\<rparr>)
                 else Returned (Some \<lparr>errors = None, message = Some ''Something went wrong.''\<rparr>))
            | OtherError _ \<Rightarrow> Thrown error)))"

subsection \<open>Vocabulary of the properties\<close>

text \<open>The object handed to \<open>safeParse\<close> by \<open>createInvoice\<close> and \<open>updateInvoice\<close>.\<close>

definition submitted :: "FormData \<Rightarrow> RawInvoice" where
  "submitted formData =
     \<lparr>raw_customerId = formData_get formData ''customerId'',
      raw_amount = formData_get formData ''amount'',
      raw_status = formData_get formData ''status''\<rparr>"

text \<open>The SQL statements among the external calls of a run.\<close>

fun written :: "effect list \<Rightarrow> SqlStatement list" where
  "written [] = []"
| "written (Sql stmt # es) = stmt # written es"
| "written (_ # es) = written es"

text \<open>The statements \<open>createInvoice\<close> and \<open>updateInvoice\<close> hand to \<open>sql\<close> for validated data.\<close>

definition insert_of :: "Env \<Rightarrow> InvoiceData \<Rightarrow> SqlStatement" where
  "insert_of env data =
     INSERT_INTO_invoices (customerId data) (num_times (Fin 100) (amount data)) (status data)
       (split_T_0 (toISOString (now env)))"

definition update_of :: "string \<Rightarrow> InvoiceData \<Rightarrow> SqlStatement" where
  "update_of id' data =
     UPDATE_invoices (customerId data) (num_times (amount data) (Fin 100)) (status data) id'"

text \<open>The messages a returned state carries for a field, and its summary message.\<close>

fun errors_at :: "State option outcome \<Rightarrow> string \<Rightarrow> string list option" where
  "errors_at (Returned (Some st)) k = (case errors st of None \<Rightarrow> None | Some m \<Rightarrow> m k)"
| "errors_at _ k = None"

fun message_of :: "State option outcome \<Rightarrow> string option" where
  "message_of (Returned (Some st)) = message st"
| "message_of _ = None"

text \<open>The messages of the issues whose path starts with a given field, in order.\<close>

definition messages_at :: "string \<Rightarrow> ZodIssue list \<Rightarrow> string list" where
  "messages_at k issues =
     map issue_message (filter (\<lambda>sub. case issue_path sub of [] \<Rightarrow> False | k' # _ \<Rightarrow> k' = k) issues)"

text \<open>
  The issues a form raises on a field; a field is offending when it raises one.
\<close>

definition field_issues :: "FormData \<Rightarrow> string \<Rightarrow> ZodIssue list" where
  "field_issues formData k =
     (if k = ''customerId'' then issues_of (parse_customerId (formData_get formData ''customerId''))
      else if k = ''amount'' then issues_of (parse_amount (formData_get formData ''amount''))
      else if k = ''status'' then issues_of (parse_status (formData_get formData ''status''))
      else [])"

text \<open>A clock, collaborators and forms for the examples.\<close>

definition initialState :: State where
  "initialState = \<lparr>errors = None, message = None\<rparr>"

definition form_paid :: FormData where
  "form_paid = [(''customerId'', Str ''c1''), (''amount'', Str ''12.50''), (''status'', Str ''paid'')]"

definition form_negative :: FormData where
  "form_negative = [(''customerId'', Str ''c1''), (''amount'', Str ''-5''), (''status'', Str ''pending'')]"

definition form_no_amount :: FormData where
  "form_no_amount = [(''customerId'', Str ''c1''), (''status'', Str ''pending'')]"

definition form_no_status :: FormData where
  "form_no_status = [(''customerId'', Str ''c1''), (''amount'', Str ''12.50'')]"

definition form_draft :: FormData where
  "form_draft = [(''customerId'', Str ''c1''), (''amount'', Str ''12.50''), (''status'', Str ''draft'')]"

definition data_paid :: InvoiceData where
  "data_paid = \<lparr>customerId = ''c1'', amount = Fin (25 / 2), status = ''paid''\<rparr>"

definition noon :: Date where
  "noon = \<lparr>utcFullYear = 2024, utcMonth = 4, utcDate = 17, utcHours = 12, utcMinutes = 0,
           utcSeconds = 0, utcMilliseconds = 0\<rparr>"

definition env_ok :: Env where
  "env_ok = \<lparr>sql = (\<lambda>_. None), now = noon, signIn = (\<lambda>_ _. None)\<rparr>"

definition env_db_down :: Env where
  "env_db_down = \<lparr>sql = (\<lambda>_. Some (OtherError ''connect ECONNREFUSED'')), now = noon,
                  signIn = (\<lambda>_ _. None)\<rparr>"

section \<open>Auxiliary facts\<close>

subsection \<open>The exponent of a rational\<close>

text \<open>\<open>floorLog2 a\<close> is the exponent \<open>e\<close> with \<open>2^e \<le> a < 2^(e+1)\<close>.\<close>

lemma bitLength_bounds:
  "2 ^ k \<le> n \<Longrightarrow> n < 2 ^ Suc k \<Longrightarrow> bitLength n = int k + 1"
proof (induction k arbitrary: n)
  case 0
  then have "n = 1" by simp
  then show ?case by (simp add: bitLength.simps)
next
  case (Suc k)
  from Suc.prems have "2 ^ k \<le> n div 2" "n div 2 < 2 ^ Suc k"
    by simp_all
  then have "bitLength (n div 2) = int k + 1"
    by (rule Suc.IH)
  moreover have "0 < n"
  proof -
    have "(0::int) < 2 ^ Suc k" by simp
    also note Suc.prems(1)
    finally show ?thesis .
  qed
  ultimately show ?case
    by (subst bitLength.simps) simp
qed

lemma pow2_le_one: "e \<le> 0 \<Longrightarrow> pow2 e \<le> 1"
proof -
  assume "e \<le> 0"
  have "(1::rat) \<le> 2 ^ nat (- e)"
    by (rule one_le_power) simp
  then have "1 / 2 ^ nat (- e) \<le> (1::rat)"
    by (simp add: field_simps)
  with \<open>e \<le> 0\<close> show ?thesis
    by (cases "e = 0") (simp_all add: pow2_def)
qed

lemma floorLog2_unique:
  assumes lo: "pow2 e \<le> a" and hi: "a < pow2 (e + 1)"
  shows "floorLog2 a = e"
proof (cases "1 \<le> a")
  case True
  have e: "0 \<le> e"
  proof (rule ccontr)
    assume "\<not> 0 \<le> e"
    then have "pow2 (e + 1) \<le> 1"
      by (intro pow2_le_one) simp
    with hi True show False by simp
  qed
  define k where "k = nat e"
  with e have ek: "e = int k" by simp
  from lo hi have "(2::rat) ^ k \<le> a" "a < 2 ^ Suc k"
    by (simp_all add: pow2_def ek nat_add_distrib)
  then have "2 ^ k \<le> \<lfloor>a\<rfloor>" "\<lfloor>a\<rfloor> < 2 ^ Suc k"
    by (simp_all add: le_floor_iff floor_less_iff)
  then have "bitLength \<lfloor>a\<rfloor> = int k + 1"
    by (rule bitLength_bounds)
  with True show ?thesis
    by (simp add: floorLog2_def ek)
next
  case False
  have pos: "0 < a"
    using lo by (rule order.strict_trans2 [rotated]) (simp add: pow2_def)
  have e: "e < 0"
  proof (rule ccontr)
    assume "\<not> e < 0"
    moreover have "(1::rat) \<le> 2 ^ nat e"
      by (rule one_le_power) simp
    ultimately have "1 \<le> pow2 e"
      by (simp add: pow2_def)
    with lo False show False by simp
  qed
  define k where "k = nat (- e - 1)"
  from e have pe: "pow2 e = 1 / 2 ^ Suc k"
  proof -
    from e have "nat (- e) = Suc k" by (simp add: k_def)
    with e show ?thesis by (simp add: pow2_def)
  qed
  have pe1: "pow2 (e + 1) = 1 / 2 ^ k"
  proof (cases "e + 1 = 0")
    case True
    then have "k = 0" by (simp add: k_def)
    with True show ?thesis by (simp add: pow2_def)
  next
    case False
    with e have "nat (- (e + 1)) = k" "\<not> 0 \<le> e + 1" by (simp_all add: k_def)
    then show ?thesis by (simp add: pow2_def)
  qed
  let ?b = "1 / a"
  from lo pos have b_hi: "?b \<le> 2 ^ Suc k"
    unfolding pe by (simp add: field_simps)
  from hi pos have b_lo: "2 ^ k < ?b"
    unfolding pe1 by (simp add: field_simps)
  have "\<lceil>?b\<rceil> - 1 < 2 ^ Suc k"
  proof -
    have "of_int (\<lceil>?b\<rceil> - 1) < ?b"
      using ceiling_correct [of ?b] by simp
    also note b_hi
    finally have "(of_int (\<lceil>?b\<rceil> - 1) :: rat) < of_int (2 ^ Suc k)"
      by simp
    then show ?thesis by (simp only: of_int_less_iff)
  qed
  moreover have "2 ^ k \<le> \<lceil>?b\<rceil> - 1"
  proof -
    from b_lo have "(of_int (2 ^ k) :: rat) < ?b" by simp
    then have "2 ^ k < \<lceil>?b\<rceil>"
      by (simp only: less_ceiling_iff)
    then show ?thesis by simp
  qed
  ultimately have "bitLength (\<lceil>?b\<rceil> - 1) = int k + 1"
    by (intro bitLength_bounds)
  with False e show ?thesis
    by (simp add: floorLog2_def k_def)
qed

subsection \<open>Field errors\<close>

lemma fieldErrors_snoc:
  "fieldErrors (issues @ [sub]) =
     (case issue_path sub of
        [] \<Rightarrow> fieldErrors issues
      | k # _ \<Rightarrow> (fieldErrors issues)(k \<mapsto> (case fieldErrors issues k of None \<Rightarrow> [] | Some l \<Rightarrow> l) @ [issue_message sub]))"
  by (simp add: fieldErrors_def split: list.splits)

lemma fieldErrors_messages_at:
  "fieldErrors issues k = (if messages_at k issues = [] then None else Some (messages_at k issues))"
proof (induction issues rule: rev_induct)
  case Nil
  show ?case by (simp add: fieldErrors_def messages_at_def)
next
  case (snoc sub issues)
  show ?case
  proof (cases "issue_path sub")
    case Nil
    with snoc show ?thesis by (simp add: fieldErrors_snoc messages_at_def)
  next
    case (Cons k' rest)
    with snoc show ?thesis by (auto simp add: fieldErrors_snoc messages_at_def)
  qed
qed

lemma messages_at_append: "messages_at k (xs @ ys) = messages_at k xs @ messages_at k ys"
  by (simp add: messages_at_def)

lemma messages_at_same:
  "\<forall>sub \<in> set issues. issue_path sub = [k] \<Longrightarrow> messages_at k issues = map issue_message issues"
  by (induction issues) (simp_all add: messages_at_def)

lemma messages_at_other:
  "\<forall>sub \<in> set issues. issue_path sub = [k'] \<Longrightarrow> k' \<noteq> k \<Longrightarrow> messages_at k issues = []"
  by (induction issues) (simp_all add: messages_at_def)

lemma parse_customerId_cases:
  "parse_customerId v =
     (case v of Some (Str s) \<Rightarrow> Inr s
      | _ \<Rightarrow> Inl [\<lparr>issue_code = invalid_type, issue_path = [''customerId''],
                   issue_message = ''Please select a customer.''\<rparr>])"
  by (simp add: parse_customerId_def z_string_def split: option.splits FormDataEntryValue.splits)

lemma parse_customerId_paths:
  "\<forall>sub \<in> set (issues_of (parse_customerId v)). issue_path sub = [''customerId'']"
  by (simp add: parse_customerId_cases split: option.splits FormDataEntryValue.splits)

lemma parse_amount_paths:
  "\<forall>sub \<in> set (issues_of (parse_amount v)). issue_path sub = [''amount'']"
  by (simp add: parse_amount_def z_coerce_number_gt_def Let_def)

lemma parse_status_paths:
  "\<forall>sub \<in> set (issues_of (parse_status v)). issue_path sub = [''status'']"
  by (simp add: parse_status_def z_enum_def split: option.splits FormDataEntryValue.splits)

lemma parse_customerId_Inl_nonempty: "parse_customerId v = Inl issues \<Longrightarrow> issues \<noteq> []"
  by (auto simp add: parse_customerId_cases split: option.splits FormDataEntryValue.splits)

lemma parse_amount_Inl_nonempty: "parse_amount v = Inl issues \<Longrightarrow> issues \<noteq> []"
  by (auto simp add: parse_amount_def z_coerce_number_gt_def Let_def split: if_splits)

lemma parse_status_Inl_nonempty: "parse_status v = Inl issues \<Longrightarrow> issues \<noteq> []"
  by (auto simp add: parse_status_def z_enum_def split: option.splits FormDataEntryValue.splits if_splits)

lemma safeParse_Inl:
  "FormSchema_omit_id_date_safeParse raw = Inl issues \<Longrightarrow>
     issues = issues_of (parse_customerId (raw_customerId raw)) @ issues_of (parse_amount (raw_amount raw))
              @ issues_of (parse_status (raw_status raw))"
  by (auto simp add: FormSchema_omit_id_date_safeParse_def Let_def split: sum.splits)

lemma safeParse_Inr:
  "FormSchema_omit_id_date_safeParse raw = Inr data \<longleftrightarrow>
     parse_customerId (raw_customerId raw) = Inr (customerId data) \<and>
     parse_amount (raw_amount raw) = Inr (amount data) \<and>
     parse_status (raw_status raw) = Inr (status data)"
  by (cases data) (auto simp add: FormSchema_omit_id_date_safeParse_def Let_def split: sum.splits)

lemma safeParse_Inl_iff:
  "(\<exists>issues. FormSchema_omit_id_date_safeParse raw = Inl issues) \<longleftrightarrow>
     (\<exists>is. parse_customerId (raw_customerId raw) = Inl is) \<or>
     (\<exists>is. parse_amount (raw_amount raw) = Inl is) \<or>
     (\<exists>is. parse_status (raw_status raw) = Inl is)"
  by (auto simp add: FormSchema_omit_id_date_safeParse_def Let_def split: sum.splits)

lemma fieldErrors_customerId:
  assumes "FormSchema_omit_id_date_safeParse raw = Inl issues"
  shows "fieldErrors issues ''customerId'' =
           (case parse_customerId (raw_customerId raw) of
              Inl is \<Rightarrow> Some (map issue_message is) | Inr _ \<Rightarrow> None)"
proof -
  have "messages_at ''customerId'' issues = map issue_message (issues_of (parse_customerId (raw_customerId raw)))"
    unfolding safeParse_Inl [OF assms] messages_at_append
    using messages_at_same [OF parse_customerId_paths]
      messages_at_other [OF parse_amount_paths, of "''customerId''"]
      messages_at_other [OF parse_status_paths, of "''customerId''"]
    by simp
  then show ?thesis
    by (auto simp add: fieldErrors_messages_at split: sum.splits dest: parse_customerId_Inl_nonempty)
qed

lemma fieldErrors_amount:
  assumes "FormSchema_omit_id_date_safeParse raw = Inl issues"
  shows "fieldErrors issues ''amount'' =
           (case parse_amount (raw_amount raw) of
              Inl is \<Rightarrow> Some (map issue_message is) | Inr _ \<Rightarrow> None)"
proof -
  have "messages_at ''amount'' issues = map issue_message (issues_of (parse_amount (raw_amount raw)))"
    unfolding safeParse_Inl [OF assms] messages_at_append
    using messages_at_same [OF parse_amount_paths]
      messages_at_other [OF parse_customerId_paths, of "''amount''"]
      messages_at_other [OF parse_status_paths, of "''amount''"]
    by simp
  then show ?thesis
    by (auto simp add: fieldErrors_messages_at split: sum.splits dest: parse_amount_Inl_nonempty)
qed

lemma fieldErrors_status:
  assumes "FormSchema_omit_id_date_safeParse raw = Inl issues"
  shows "fieldErrors issues ''status'' =
           (case parse_status (raw_status raw) of
              Inl is \<Rightarrow> Some (map issue_message is) | Inr _ \<Rightarrow> None)"
proof -
  have "messages_at ''status'' issues = map issue_message (issues_of (parse_status (raw_status raw)))"
    unfolding safeParse_Inl [OF assms] messages_at_append
    using messages_at_same [OF parse_status_paths]
      messages_at_other [OF parse_customerId_paths, of "''status''"]
      messages_at_other [OF parse_amount_paths, of "''status''"]
    by simp
  then show ?thesis
    by (auto simp add: fieldErrors_messages_at split: sum.splits dest: parse_status_Inl_nonempty)
qed

subsection \<open>The three ways an action ends\<close>

lemma Create_Update_safeParse:
  "CreateInvoice_safeParse = FormSchema_omit_id_date_safeParse"
  "UpdateInvoice_safeParse = FormSchema_omit_id_date_safeParse"
  by (simp_all add: CreateInvoice_safeParse_def UpdateInvoice_safeParse_def)

lemma createInvoice_invalid:
  "FormSchema_omit_id_date_safeParse (submitted formData) = Inl issues \<Longrightarrow>
   createInvoice env prevState formData =
     ([], Returned (Some \<lparr>errors = Some (fieldErrors issues),
                           message = Some ''Missing Fields. Failed to Create Invoice.''\<rparr>))"
  by (simp add: createInvoice_def submitted_def Create_Update_safeParse)

lemma updateInvoice_invalid:
  "FormSchema_omit_id_date_safeParse (submitted formData) = Inl issues \<Longrightarrow>
   updateInvoice env id' prevState formData =
     ([], Returned (Some \<lparr>errors = Some (fieldErrors issues),
                           message = Some ''Missing Fields. Failed to Update Invoice.''\<rparr>))"
  by (simp add: updateInvoice_def submitted_def Create_Update_safeParse)

lemma createInvoice_valid:
  "FormSchema_omit_id_date_safeParse (submitted formData) = Inr data \<Longrightarrow>
   createInvoice env prevState formData =
     (case sql env (insert_of env data) of
        Some error \<Rightarrow>
          ([Sql (insert_of env data)],
           Returned (Some \<lparr>errors = None, message = Some ''Database Error: Failed to Create Invoice.''\<rparr>))
      | None \<Rightarrow>
          ([Sql (insert_of env data), RevalidatePath ''/dashboard/invoices'', Redirect ''/dashboard/invoices''],
           Redirected ''/dashboard/invoices''))"
  by (simp add: createInvoice_def submitted_def Create_Update_safeParse insert_of_def Let_def split: option.splits)

lemma updateInvoice_valid:
  "FormSchema_omit_id_date_safeParse (submitted formData) = Inr data \<Longrightarrow>
   updateInvoice env id' prevState formData =
     (case sql env (update_of id' data) of
        Some error \<Rightarrow>
          ([Sql (update_of id' data)],
           Returned (Some \<lparr>errors = None, message = Some ''Database Error: Failed to Update Invoice.''\<rparr>))
      | None \<Rightarrow>
          ([Sql (update_of id' data), RevalidatePath ''/dashboard/invoices'', Redirect ''/dashboard/invoices''],
           Redirected ''/dashboard/invoices''))"
  by (simp add: updateInvoice_def submitted_def Create_Update_safeParse update_of_def Let_def split: option.splits)

lemma parse_status_cases:
  "parse_status v =
     (case v of
        Some (Str s) \<Rightarrow>
          if s = ''pending'' \<or> s = ''paid'' then Inr s
          else Inl [\<lparr>issue_code = invalid_enum_value, issue_path = [''status''],
                     issue_message = ''Invalid enum value. Expected '' @ quoted ''pending'' @ '' | '' @
                                     quoted ''paid'' @ '', received '' @ quoted s\<rparr>]
      | _ \<Rightarrow> Inl [\<lparr>issue_code = invalid_type, issue_path = [''status''],
                   issue_message = ''Please select an invoice status.''\<rparr>])"
  by (simp add: parse_status_def z_enum_def split: option.splits FormDataEntryValue.splits)

lemma digitChar_not_T: "digitChar d \<noteq> CHR ''T''" "CHR ''T'' \<noteq> digitChar d"
  by (simp_all add: digitChar_def)

lemma pad_no_T: "CHR ''T'' \<notin> set (pad width n)"
  by (induction width arbitrary: n) (simp_all add: digitChar_not_T)

lemma split_T_0_prefix: "CHR ''T'' \<notin> set day \<Longrightarrow> split_T_0 (day @ CHR ''T'' # rest) = day"
  by (induction day) (auto simp add: split_T_0_def)

lemma split_T_0_toISOString:
  "0 \<le> utcFullYear d \<Longrightarrow> utcFullYear d \<le> 9999 \<Longrightarrow>
   split_T_0 (toISOString d) =
     pad 4 (nat (utcFullYear d)) @ ''-'' @ pad 2 (utcMonth d + 1) @ ''-'' @ pad 2 (utcDate d)"
proof -
  assume y: "0 \<le> utcFullYear d" "utcFullYear d \<le> 9999"
  let ?day = "pad 4 (nat (utcFullYear d)) @ ''-'' @ pad 2 (utcMonth d + 1) @ ''-'' @ pad 2 (utcDate d)"
  have "CHR ''T'' \<notin> set ?day"
    by (simp add: pad_no_T)
  moreover have "\<exists>rest. toISOString d = ?day @ CHR ''T'' # rest"
    using y by (simp add: toISOString_def)
  ultimately show ?thesis
    using split_T_0_prefix by metis
qed

lemma written_createInvoice:
  "written (fst (createInvoice env prevState formData)) =
     (case FormSchema_omit_id_date_safeParse (submitted formData) of
        Inl _ \<Rightarrow> [] | Inr data \<Rightarrow> [insert_of env data])"
  by (cases "FormSchema_omit_id_date_safeParse (submitted formData)")
     (simp_all add: createInvoice_invalid createInvoice_valid split: option.splits)

lemma written_updateInvoice:
  "written (fst (updateInvoice env id' prevState formData)) =
     (case FormSchema_omit_id_date_safeParse (submitted formData) of
        Inl _ \<Rightarrow> [] | Inr data \<Rightarrow> [update_of id' data])"
  by (cases "FormSchema_omit_id_date_safeParse (submitted formData)")
     (simp_all add: updateInvoice_invalid updateInvoice_valid split: option.splits)

lemma submitted_cong:
  "formData_get formData' ''customerId'' = formData_get formData ''customerId'' \<Longrightarrow>
   formData_get formData' ''amount'' = formData_get formData ''amount'' \<Longrightarrow>
   formData_get formData' ''status'' = formData_get formData ''status'' \<Longrightarrow>
   submitted formData' = submitted formData"
  by (simp add: submitted_def)

lemma createInvoice_submitted:
  "submitted formData' = submitted formData \<Longrightarrow>
   createInvoice env prevState' formData' = createInvoice env prevState formData"
  by (simp add: createInvoice_def submitted_def)

subsection \<open>Failed validation\<close>

lemma parse_amount_le:
  "num_le (Number v) (Fin 0) \<Longrightarrow>
   parse_amount v = Inl [\<lparr>issue_code = too_small, issue_path = [''amount''],
                          issue_message = ''Please enter an amount greater than $0.''\<rparr>]"
  by (cases "Number v") (simp_all add: parse_amount_def z_coerce_number_gt_def)

lemma raw_submitted:
  "raw_customerId (submitted formData) = formData_get formData ''customerId''"
  "raw_amount (submitted formData) = formData_get formData ''amount''"
  "raw_status (submitted formData) = formData_get formData ''status''"
  by (simp_all add: submitted_def)

lemma safeParse_isl:
  "isl (FormSchema_omit_id_date_safeParse raw) \<longleftrightarrow>
     isl (parse_customerId (raw_customerId raw)) \<or> isl (parse_amount (raw_amount raw)) \<or>
     isl (parse_status (raw_status raw))"
  by (auto simp add: FormSchema_omit_id_date_safeParse_def Let_def split: sum.splits)

lemma invalid_run:
  assumes "isl (FormSchema_omit_id_date_safeParse (submitted formData))"
  shows "fst (createInvoice env prevState formData) = []"
    and "fst (updateInvoice env id' prevState formData) = []"
    and "message_of (snd (createInvoice env prevState formData)) =
           Some ''Missing Fields. Failed to Create Invoice.''"
    and "message_of (snd (updateInvoice env id' prevState formData)) =
           Some ''Missing Fields. Failed to Update Invoice.''"
    and "errors_at (snd (createInvoice env prevState formData)) ''customerId'' =
           (case parse_customerId (formData_get formData ''customerId'') of
              Inl is \<Rightarrow> Some (map issue_message is) | Inr _ \<Rightarrow> None)"
    and "errors_at (snd (createInvoice env prevState formData)) ''amount'' =
           (case parse_amount (formData_get formData ''amount'') of
              Inl is \<Rightarrow> Some (map issue_message is) | Inr _ \<Rightarrow> None)"
    and "errors_at (snd (createInvoice env prevState formData)) ''status'' =
           (case parse_status (formData_get formData ''status'') of
              Inl is \<Rightarrow> Some (map issue_message is) | Inr _ \<Rightarrow> None)"
    and "errors_at (snd (updateInvoice env id' prevState formData)) =
           errors_at (snd (createInvoice env prevState formData))"
proof -
  from assms obtain issues
    where issues: "FormSchema_omit_id_date_safeParse (submitted formData) = Inl issues"
    by (cases "FormSchema_omit_id_date_safeParse (submitted formData)") simp_all
  note c = createInvoice_invalid [OF issues, of env prevState]
  note u = updateInvoice_invalid [OF issues, of env id' prevState]
  show "fst (createInvoice env prevState formData) = []"
    and "fst (updateInvoice env id' prevState formData) = []"
    and "message_of (snd (createInvoice env prevState formData)) =
           Some ''Missing Fields. Failed to Create Invoice.''"
    and "message_of (snd (updateInvoice env id' prevState formData)) =
           Some ''Missing Fields. Failed to Update Invoice.''"
    by (simp_all add: c u)
  show "errors_at (snd (createInvoice env prevState formData)) ''customerId'' =
           (case parse_customerId (formData_get formData ''customerId'') of
              Inl is \<Rightarrow> Some (map issue_message is) | Inr _ \<Rightarrow> None)"
    using fieldErrors_customerId [OF issues] by (simp add: c raw_submitted)
  show "errors_at (snd (createInvoice env prevState formData)) ''amount'' =
           (case parse_amount (formData_get formData ''amount'') of
              Inl is \<Rightarrow> Some (map issue_message is) | Inr _ \<Rightarrow> None)"
    using fieldErrors_amount [OF issues] by (simp add: c raw_submitted)
  show "errors_at (snd (createInvoice env prevState formData)) ''status'' =
           (case parse_status (formData_get formData ''status'') of
              Inl is \<Rightarrow> Some (map issue_message is) | Inr _ \<Rightarrow> None)"
    using fieldErrors_status [OF issues] by (simp add: c raw_submitted)
  show "errors_at (snd (updateInvoice env id' prevState formData)) =
           errors_at (snd (createInvoice env prevState formData))"
    by (rule ext) (simp add: c u)
qed

lemma parse_status_outside:
  "v \<notin> {Some (Str ''pending''), Some (Str ''paid'')} \<Longrightarrow> isl (parse_status v)"
proof (cases v)
  case None
  then show ?thesis by (simp add: parse_status_cases)
next
  case (Some e)
  assume "v \<notin> {Some (Str ''pending''), Some (Str ''paid'')}"
  with Some show ?thesis by (cases e) (auto simp add: parse_status_cases)
qed

lemma issues_of_Inl_case:
  "(case r of Inl iss \<Rightarrow> Some (map issue_message iss) | Inr _ \<Rightarrow> None) =
     (if isl r then Some (map issue_message (issues_of r)) else None)"
  by (cases r) simp_all

lemma isl_issues_of_parse:
  "isl (parse_customerId v) \<longleftrightarrow> issues_of (parse_customerId v) \<noteq> []"
  "isl (parse_amount v) \<longleftrightarrow> issues_of (parse_amount v) \<noteq> []"
  "isl (parse_status v) \<longleftrightarrow> issues_of (parse_status v) \<noteq> []"
proof -
  show "isl (parse_customerId v) \<longleftrightarrow> issues_of (parse_customerId v) \<noteq> []"
    using parse_customerId_Inl_nonempty by (cases "parse_customerId v") auto
  show "isl (parse_amount v) \<longleftrightarrow> issues_of (parse_amount v) \<noteq> []"
    using parse_amount_Inl_nonempty by (cases "parse_amount v") auto
  show "isl (parse_status v) \<longleftrightarrow> issues_of (parse_status v) \<noteq> []"
    using parse_status_Inl_nonempty by (cases "parse_status v") auto
qed

lemma fieldErrors_other:
  assumes "FormSchema_omit_id_date_safeParse raw = Inl issues"
    and "k \<noteq> ''customerId''" "k \<noteq> ''amount''" "k \<noteq> ''status''"
  shows "fieldErrors issues k = None"
proof -
  have "messages_at k issues = []"
    unfolding safeParse_Inl [OF assms(1)] messages_at_append
    using messages_at_other [OF parse_customerId_paths, of k]
      messages_at_other [OF parse_amount_paths, of k]
      messages_at_other [OF parse_status_paths, of k] assms(2-4)
    by simp
  then show ?thesis by (simp add: fieldErrors_messages_at)
qed

lemma fieldErrors_field_issues:
  assumes "FormSchema_omit_id_date_safeParse (submitted formData) = Inl issues"
  shows "fieldErrors issues k =
           (if field_issues formData k = [] then None
            else Some (map issue_message (field_issues formData k)))"
proof -
  consider "k = ''customerId''" | "k = ''amount''" | "k = ''status''"
    | "k \<noteq> ''customerId''" "k \<noteq> ''amount''" "k \<noteq> ''status''"
    by blast
  then show ?thesis
  proof cases
    case 1
    then show ?thesis
      using fieldErrors_customerId [OF assms]
      by (simp add: field_issues_def raw_submitted issues_of_Inl_case isl_issues_of_parse)
  next
    case 2
    then show ?thesis
      using fieldErrors_amount [OF assms]
      by (simp add: field_issues_def raw_submitted issues_of_Inl_case isl_issues_of_parse)
  next
    case 3
    then show ?thesis
      using fieldErrors_status [OF assms]
      by (simp add: field_issues_def raw_submitted issues_of_Inl_case isl_issues_of_parse)
  next
    case 4
    then show ?thesis
      using fieldErrors_other [OF assms] by (simp add: field_issues_def)
  qed
qed

lemma some_field_offends:
  "isl (FormSchema_omit_id_date_safeParse (submitted formData)) \<Longrightarrow>
   \<exists>k. field_issues formData k \<noteq> []"
proof -
  assume "isl (FormSchema_omit_id_date_safeParse (submitted formData))"
  then consider "field_issues formData ''customerId'' \<noteq> []"
    | "field_issues formData ''amount'' \<noteq> []" | "field_issues formData ''status'' \<noteq> []"
    by (auto simp add: safeParse_isl raw_submitted isl_issues_of_parse field_issues_def)
  then show ?thesis by cases blast+
qed

subsection \<open>Evaluation of the examples\<close>

lemma floor_numeral_div: "\<lfloor>(numeral a / numeral b :: rat)\<rfloor> = numeral a div numeral b"
  using floor_divide_of_int_eq [of "numeral a" "numeral b", where ?'a = rat] by simp

lemmas roundToDouble_eval =
  roundToDouble_def Let_def roundTiesToEven_def pow2_def floor_numeral_div

text \<open>The doubles of the examples: \<open>12.5\<close>, \<open>1250\<close>, \<open>5\<close> and \<open>0.125\<close> are doubles.\<close>

lemma floorLog2_examples:
  "floorLog2 (25 / 2) = 3" "floorLog2 1250 = 10" "floorLog2 5 = 2" "floorLog2 (1 / 8) = - 3"
  by (rule floorLog2_unique; simp add: pow2_def)+

lemma double_examples:
  "roundToDouble (25 / 2) = Fin (25 / 2)" "roundToDouble 1250 = Fin 1250"
  "roundToDouble 5 = Fin 5" "roundToDouble (1 / 8) = Fin (1 / 8)"
  by (simp_all add: roundToDouble_eval floorLog2_examples)

text \<open>
  \<open>19.99\<close> is not a double: the literal reads as \<open>5626684784446013 / 2^48\<close>, and a
  hundred times that rounds to \<open>8791694975696895 / 2^42\<close>, which is \<open>1999 - 2^-42\<close>
  and prints as \<open>1998.9999999999998\<close>.
\<close>

lemma floorLog2_1999: "floorLog2 (1999 / 100) = 4"
  by (rule floorLog2_unique; simp add: pow2_def)

lemma double_1999: "roundToDouble (1999 / 100) = Fin (5626684784446013 / 281474976710656)"
  by (simp add: roundToDouble_eval floorLog2_1999)

lemma floorLog2_cents_1999: "floorLog2 (100 * (5626684784446013 / 281474976710656)) = 10"
  by (rule floorLog2_unique; simp add: pow2_def)

lemma cents_1999:
  "num_times (Fin 100) (Fin (5626684784446013 / 281474976710656)) =
     Fin (8791694975696895 / 4398046511104)"
  "num_times (Fin (5626684784446013 / 281474976710656)) (Fin 100) =
     Fin (8791694975696895 / 4398046511104)"
  using floorLog2_cents_1999 by (simp_all add: roundToDouble_eval)

lemma cents_eighth:
  "num_times (Fin 100) (Fin (1 / 8)) = Fin (25 / 2)"
  "num_times (Fin (1 / 8)) (Fin 100) = Fin (25 / 2)"
  by (simp_all add: double_examples)

lemmas Number_eval =
  formData_get_def Number_def StringToNumber_def trim_def trimStart.simps trimEnd.simps
  leadingWhiteSpace_def trailingWhiteSpace_def whiteSpace_def
  parseUnsignedDecimal_def parseNonDecimal_def parseDigits_def parseExponent_def
  isDigit_def digitValue_def digitsValue_def scale10_def num_neg_def
  double_examples double_1999

lemmas safeParse_eval =
  CreateInvoice_safeParse_def UpdateInvoice_safeParse_def FormSchema_omit_id_date_safeParse_def
  submitted_def parse_customerId_def parse_amount_def parse_status_def
  z_string_def z_coerce_number_gt_def z_enum_def

lemma pad_2: "pad 2 n = [digitChar (n div 10 mod 10), digitChar (n mod 10)]"
  unfolding numeral_2_eq_2 by simp

lemma four: "(4::nat) = Suc (Suc (Suc (Suc 0)))"
  by simp

lemma pad_4:
  "pad 4 n = [digitChar (n div 10 div 10 div 10 mod 10), digitChar (n div 10 div 10 mod 10),
              digitChar (n div 10 mod 10), digitChar (n mod 10)]"
  by (subst four) simp

lemma paid_parses: "FormSchema_omit_id_date_safeParse (submitted form_paid) = Inr data_paid"
  by (simp add: form_paid_def data_paid_def safeParse_eval Number_eval)

lemma paid_amount: "Number (formData_get form_paid ''amount'') = Fin (25 / 2)"
  by (simp add: form_paid_def Number_eval)

lemma noon_day:
  "pad 4 (nat (utcFullYear (now env_ok))) @ ''-'' @ pad 2 (utcMonth (now env_ok) + 1) @ ''-'' @
   pad 2 (utcDate (now env_ok)) = ''2024-05-17''"
  by (simp add: env_ok_def noon_def pad_2 pad_4 digitChar_def)


lemma today: "split_T_0 (toISOString (now env_ok)) = ''2024-05-17''"
proof -
  have "0 \<le> utcFullYear (now env_ok)" "utcFullYear (now env_ok) \<le> 9999"
    by (simp_all add: env_ok_def noon_def)
  then show ?thesis
    by (simp only: split_T_0_toISOString noon_day)
qed

lemma eighth_parses:
  "FormSchema_omit_id_date_safeParse
     (submitted [(''customerId'', Str ''c1''), (''amount'', Str ''0.125''), (''status'', Str ''pending'')]) =
   Inr \<lparr>customerId = ''c1'', amount = Fin (1 / 8), status = ''pending''\<rparr>"
  by (simp add: safeParse_eval Number_eval)

lemma nineteen_parses:
  "FormSchema_omit_id_date_safeParse
     (submitted [(''customerId'', Str ''c1''), (''amount'', Str ''19.99''), (''status'', Str ''pending'')]) =
   Inr \<lparr>customerId = ''c1'', amount = Fin (5626684784446013 / 281474976710656),
        status = ''pending''\<rparr>"
  by (simp add: safeParse_eval Number_eval)

text \<open>
  At the edges of the doubles: \<open>1e307\<close> is finite and a hundred times it is
  \<open>Infinity\<close>; the literal \<open>1e-400\<close> underflows to \<open>0\<close>, so that amount is
  rejected; a no-break space before the digits is trimmed.
\<close>

lemma floorLog2_edges:
  "floorLog2 (10 ^ 307) = 1019" "floorLog2 (100 * 9999999999999999860310597602564577717002641838126363875249660735883565852672743849064846414228960666786379280392654615393353172850252103336275952370615397010730691664689375178569039851073146339641623266071126720011020169553304018596457812688561947201171488461172921822139066929851282122002676667750021070848) = 1026"
  "floorLog2 (1 / 10 ^ 400) = - 1329"
  by (rule floorLog2_unique; simp add: pow2_def)+

lemma double_1e307: "roundToDouble (10 ^ 307) = Fin 9999999999999999860310597602564577717002641838126363875249660735883565852672743849064846414228960666786379280392654615393353172850252103336275952370615397010730691664689375178569039851073146339641623266071126720011020169553304018596457812688561947201171488461172921822139066929851282122002676667750021070848"
  using floorLog2_edges(1) by (simp add: roundToDouble_eval)

lemma cents_overflow: "num_times (Fin 100) (Fin 9999999999999999860310597602564577717002641838126363875249660735883565852672743849064846414228960666786379280392654615393353172850252103336275952370615397010730691664689375178569039851073146339641623266071126720011020169553304018596457812688561947201171488461172921822139066929851282122002676667750021070848) = Infinity"
  using floorLog2_edges(2) by (simp add: roundToDouble_eval)

lemma double_underflow: "roundToDouble (1 / 10 ^ 400) = Fin 0"
  using floorLog2_edges(3) by (simp add: roundToDouble_eval)

lemma Number_edges:
  "Number (Some (Str [CHR 0xC2, CHR 0xA0, CHR ''5''])) = Fin 5"
  "Number (Some (Str ''1e-400'')) = Fin 0"
  "Number (Some (Str ''1e307'')) = Fin 9999999999999999860310597602564577717002641838126363875249660735883565852672743849064846414228960666786379280392654615393353172850252103336275952370615397010730691664689375178569039851073146339641623266071126720011020169553304018596457812688561947201171488461172921822139066929851282122002676667750021070848"
  using double_underflow double_1e307 by (simp_all add: Number_eval)

lemma underflow_rejected:
  "parse_amount (Some (Str ''1e-400'')) =
     Inl [\<lparr>issue_code = too_small, issue_path = [''amount''],
           issue_message = ''Please enter an amount greater than $0.''\<rparr>]"
  by (simp add: parse_amount_def z_coerce_number_gt_def Number_edges)

section \<open>Properties\<close>

text \<open>
  C1. No rounding takes place between validation and the write. The amount \<open>19.99\<close>
  is positive and validates, and both actions hand the double product
  \<open>100 * 19.99 = 1998.9999999999998\<close> (that is \<open>1999 - 2^-42\<close>) to the write, where
  \<open>round(a * 100)\<close> is \<open>1999\<close>. Likewise \<open>0.125\<close> validates and \<open>12.5\<close> is handed
  to the write, where rounding gives \<open>13\<close>.
\<close>

theorem amount_in_cents_not_rounded:
  "CreateInvoice_safeParse
     (submitted [(''customerId'', Str ''c1''), (''amount'', Str ''19.99''), (''status'', Str ''pending'')]) =
     Inr \<lparr>customerId = ''c1'', amount = Fin (5626684784446013 / 281474976710656),
          status = ''pending''\<rparr> \<and>
   num_gt (Fin (5626684784446013 / 281474976710656)) (Fin 0) \<and>
   written (fst (createInvoice env_ok initialState
                   [(''customerId'', Str ''c1''), (''amount'', Str ''19.99''),
                    (''status'', Str ''pending'')])) =
     [INSERT_INTO_invoices ''c1'' (Fin (1999 - 1 / 2 ^ 42)) ''pending'' ''2024-05-17''] \<and>
   written (fst (updateInvoice env_ok ''inv-1'' initialState
                   [(''customerId'', Str ''c1''), (''amount'', Str ''19.99''),
                    (''status'', Str ''pending'')])) =
     [UPDATE_invoices ''c1'' (Fin (1999 - 1 / 2 ^ 42)) ''pending'' ''inv-1''] \<and>
   round (1999 / 100 * 100 :: rat) = 1999 \<and>
   round (5626684784446013 / 281474976710656 * 100 :: rat) = 1999 \<and>
   Fin (1999 - 1 / 2 ^ 42) \<noteq> Fin (of_int 1999) \<and>
   CreateInvoice_safeParse
     (submitted [(''customerId'', Str ''c1''), (''amount'', Str ''0.125''), (''status'', Str ''pending'')]) =
     Inr \<lparr>customerId = ''c1'', amount = Fin (1 / 8), status = ''pending''\<rparr> \<and>
   written (fst (createInvoice env_ok initialState
                   [(''customerId'', Str ''c1''), (''amount'', Str ''0.125''),
                    (''status'', Str ''pending'')])) =
     [INSERT_INTO_invoices ''c1'' (Fin (25 / 2)) ''pending'' ''2024-05-17''] \<and>
   written (fst (updateInvoice env_ok ''inv-1'' initialState
                   [(''customerId'', Str ''c1''), (''amount'', Str ''0.125''),
                    (''status'', Str ''pending'')])) =
     [UPDATE_invoices ''c1'' (Fin (25 / 2)) ''pending'' ''inv-1''] \<and>
   round (1 / 8 * 100 :: rat) = 13 \<and>
   Fin (25 / 2) \<noteq> Fin (of_int 13)"
proof (intro conjI)
  show "CreateInvoice_safeParse
     (submitted [(''customerId'', Str ''c1''), (''amount'', Str ''19.99''), (''status'', Str ''pending'')]) =
     Inr \<lparr>customerId = ''c1'', amount = Fin (5626684784446013 / 281474976710656),
          status = ''pending''\<rparr>"
    by (simp only: CreateInvoice_safeParse_def nineteen_parses)
  show "num_gt (Fin (5626684784446013 / 281474976710656)) (Fin 0)"
    by simp
  have cents: "(8791694975696895 / 4398046511104 :: rat) = 1999 - 1 / 2 ^ 42"
    by simp
  show "written (fst (createInvoice env_ok initialState
                   [(''customerId'', Str ''c1''), (''amount'', Str ''19.99''),
                    (''status'', Str ''pending'')])) =
     [INSERT_INTO_invoices ''c1'' (Fin (1999 - 1 / 2 ^ 42)) ''pending'' ''2024-05-17'']"
    unfolding cents [symmetric]
    by (simp add: written_createInvoice nineteen_parses insert_of_def today cents_1999
        del: num_times.simps)
  show "written (fst (updateInvoice env_ok ''inv-1'' initialState
                   [(''customerId'', Str ''c1''), (''amount'', Str ''19.99''),
                    (''status'', Str ''pending'')])) =
     [UPDATE_invoices ''c1'' (Fin (1999 - 1 / 2 ^ 42)) ''pending'' ''inv-1'']"
    unfolding cents [symmetric]
    by (simp add: written_updateInvoice nineteen_parses update_of_def cents_1999
        del: num_times.simps)
  show "round (1999 / 100 * 100 :: rat) = 1999"
    by simp
  show "round (5626684784446013 / 281474976710656 * 100 :: rat) = 1999"
    by (simp add: round_def floor_numeral_div)
  show "Fin (1999 - 1 / 2 ^ 42) \<noteq> Fin (of_int 1999)"
    by simp
  show "CreateInvoice_safeParse
     (submitted [(''customerId'', Str ''c1''), (''amount'', Str ''0.125''), (''status'', Str ''pending'')]) =
     Inr \<lparr>customerId = ''c1'', amount = Fin (1 / 8), status = ''pending''\<rparr>"
    by (simp only: CreateInvoice_safeParse_def eighth_parses)
  show "written (fst (createInvoice env_ok initialState
                   [(''customerId'', Str ''c1''), (''amount'', Str ''0.125''),
                    (''status'', Str ''pending'')])) =
     [INSERT_INTO_invoices ''c1'' (Fin (25 / 2)) ''pending'' ''2024-05-17'']"
    by (simp add: written_createInvoice eighth_parses insert_of_def today cents_eighth
        del: num_times.simps)
  show "written (fst (updateInvoice env_ok ''inv-1'' initialState
                   [(''customerId'', Str ''c1''), (''amount'', Str ''0.125''),
                    (''status'', Str ''pending'')])) =
     [UPDATE_invoices ''c1'' (Fin (25 / 2)) ''pending'' ''inv-1'']"
    by (simp add: written_updateInvoice eighth_parses update_of_def cents_eighth
        del: num_times.simps)
  show "round (1 / 8 * 100 :: rat) = 13"
    by (simp add: round_def floor_numeral_div)
  show "Fin (25 / 2) \<noteq> Fin (of_int 13)"
    by simp
qed

text \<open>
  C2. \<open>authenticate\<close> returns the message "Invalid credentials." when \<open>signIn\<close> throws
  an AuthError of type CredentialsSignin, returns "Something went wrong." for an
  AuthError of any other type, and throws again every error that is not an AuthError.
\<close>

theorem authenticate_error_mapping:
  "(signIn env ''credentials'' formData = Some (AuthError ''CredentialsSignin'') \<longrightarrow>
      snd (authenticate env prevState formData) =
        Returned (Some \<lparr>errors = None, message = Some ''Invalid credentials.''\<rparr>)) \<and>
   (\<forall>t. t \<noteq> ''CredentialsSignin'' \<longrightarrow> signIn env ''credentials'' formData = Some (AuthError t) \<longrightarrow>
      snd (authenticate env prevState formData) =
        Returned (Some \<lparr>errors = None, message = Some ''Something went wrong.''\<rparr>)) \<and>
   (\<forall>e. signIn env ''credentials'' formData = Some (OtherError e) \<longrightarrow>
      snd (authenticate env prevState formData) = Thrown (OtherError e))"
  by (simp add: authenticate_def)

theorem authenticate_error_mapping_witness:
  "snd (authenticate
          \<lparr>sql = (\<lambda>_. None), now = noon,
           signIn = (\<lambda>_ _. Some (AuthError ''CredentialsSignin''))\<rparr>
          () [(''email'', Str ''user@nextmail.com''), (''password'', Str ''wrong'')]) =
     Returned (Some \<lparr>errors = None, message = Some ''Invalid credentials.''\<rparr>) \<and>
   snd (authenticate
          \<lparr>sql = (\<lambda>_. None), now = noon,
           signIn = (\<lambda>_ _. Some (AuthError ''CallbackRouteError''))\<rparr>
          () [(''email'', Str ''user@nextmail.com''), (''password'', Str ''wrong'')]) =
     Returned (Some \<lparr>errors = None, message = Some ''Something went wrong.''\<rparr>) \<and>
   snd (authenticate
          \<lparr>sql = (\<lambda>_. None), now = noon,
           signIn = (\<lambda>_ _. Some (OtherError ''NEXT_REDIRECT''))\<rparr>
          () [(''email'', Str ''user@nextmail.com''), (''password'', Str ''123456'')]) =
     Thrown (OtherError ''NEXT_REDIRECT'')"
  using
    authenticate_error_mapping
      [of "\<lparr>sql = (\<lambda>_. None), now = noon,
             signIn = (\<lambda>_ _. Some (AuthError ''CredentialsSignin''))\<rparr>"
          "[(''email'', Str ''user@nextmail.com''), (''password'', Str ''wrong'')]" "()"]
    authenticate_error_mapping
      [of "\<lparr>sql = (\<lambda>_. None), now = noon,
             signIn = (\<lambda>_ _. Some (AuthError ''CallbackRouteError''))\<rparr>"
          "[(''email'', Str ''user@nextmail.com''), (''password'', Str ''wrong'')]" "()"]
    authenticate_error_mapping
      [of "\<lparr>sql = (\<lambda>_. None), now = noon,
             signIn = (\<lambda>_ _. Some (OtherError ''NEXT_REDIRECT''))\<rparr>"
          "[(''email'', Str ''user@nextmail.com''), (''password'', Str ''123456'')]" "()"]
  by simp

text \<open>
  C3. Whenever the insert throws, whatever the error, \<open>createInvoice\<close> returns a state
  whose message is the database-error message: the error does not escape, and neither
  \<open>revalidatePath\<close> nor \<open>redirect\<close> is called.
\<close>

theorem createInvoice_database_error:
  assumes "CreateInvoice_safeParse (submitted formData) = Inr data"
    and "sql env (insert_of env data) = Some error"
  shows "createInvoice env prevState formData =
           ([Sql (insert_of env data)],
            Returned (Some \<lparr>errors = None,
                             message = Some ''Database Error: Failed to Create Invoice.''\<rparr>)) \<and>
         (\<forall>e. snd (createInvoice env prevState formData) \<noteq> Thrown e) \<and>
         (\<forall>p. snd (createInvoice env prevState formData) \<noteq> Redirected p) \<and>
         (\<forall>p. RevalidatePath p \<notin> set (fst (createInvoice env prevState formData)) \<and>
              Redirect p \<notin> set (fst (createInvoice env prevState formData)))"
  using assms by (simp add: Create_Update_safeParse createInvoice_valid)

theorem createInvoice_database_error_witness:
  "CreateInvoice_safeParse (submitted form_paid) = Inr data_paid \<and>
   sql env_db_down (insert_of env_db_down data_paid) = Some (OtherError ''connect ECONNREFUSED'') \<and>
   createInvoice env_db_down initialState form_paid =
     ([Sql (insert_of env_db_down data_paid)],
      Returned (Some \<lparr>errors = None,
                       message = Some ''Database Error: Failed to Create Invoice.''\<rparr>))"
proof -
  have ok: "CreateInvoice_safeParse (submitted form_paid) = Inr data_paid"
    by (simp add: paid_parses CreateInvoice_safeParse_def)
  have down: "sql env_db_down (insert_of env_db_down data_paid) =
                Some (OtherError ''connect ECONNREFUSED'')"
    by (simp add: env_db_down_def)
  from createInvoice_database_error [OF ok down, of initialState] ok down
  show ?thesis by blast
qed

text \<open>
  C4. When the submitted status is anything but the string \<open>pending\<close> or \<open>paid\<close>
  (another string, a file, or no status at all), validation of \<open>createInvoice\<close> and
  \<open>updateInvoice\<close> fails and the returned state carries at least one message for the
  status field (for a missing status, "Please select an invoice status."); when it is
  \<open>pending\<close> or \<open>paid\<close>, the status field validates and no returned state carries a
  status message.
\<close>

theorem status_validation:
  "(formData_get formData ''status'' \<notin> {Some (Str ''pending''), Some (Str ''paid'')} \<longrightarrow>
      isl (CreateInvoice_safeParse (submitted formData)) \<and>
      isl (UpdateInvoice_safeParse (submitted formData)) \<and>
      issues_of (parse_status (formData_get formData ''status'')) \<noteq> [] \<and>
      errors_at (snd (createInvoice env prevState formData)) ''status'' =
        Some (map issue_message (issues_of (parse_status (formData_get formData ''status'')))) \<and>
      errors_at (snd (updateInvoice env id' prevState formData)) ''status'' =
        Some (map issue_message (issues_of (parse_status (formData_get formData ''status''))))) \<and>
   (formData_get formData ''status'' = None \<longrightarrow>
      errors_at (snd (createInvoice env prevState formData)) ''status'' =
        Some [''Please select an invoice status.''] \<and>
      errors_at (snd (updateInvoice env id' prevState formData)) ''status'' =
        Some [''Please select an invoice status.'']) \<and>
   (\<forall>s. formData_get formData ''status'' = Some (Str s) \<and> s \<in> {''pending'', ''paid''} \<longrightarrow>
      parse_status (formData_get formData ''status'') = Inr s \<and>
      errors_at (snd (createInvoice env prevState formData)) ''status'' = None \<and>
      errors_at (snd (updateInvoice env id' prevState formData)) ''status'' = None)"
proof (intro conjI impI allI)
  assume out: "formData_get formData ''status'' \<notin> {Some (Str ''pending''), Some (Str ''paid'')}"
  then obtain iss where st: "parse_status (formData_get formData ''status'') = Inl iss"
    using parse_status_outside by (cases "parse_status (formData_get formData ''status'')") force+
  then have bad: "isl (FormSchema_omit_id_date_safeParse (submitted formData))"
    by (simp add: safeParse_isl raw_submitted)
  then show "isl (CreateInvoice_safeParse (submitted formData))"
    and "isl (UpdateInvoice_safeParse (submitted formData))"
    by (simp_all add: Create_Update_safeParse)
  show "issues_of (parse_status (formData_get formData ''status'')) \<noteq> []"
    using parse_status_Inl_nonempty [OF st] by (simp add: st)
  show c: "errors_at (snd (createInvoice env prevState formData)) ''status'' =
        Some (map issue_message (issues_of (parse_status (formData_get formData ''status''))))"
    by (simp add: invalid_run(7) [OF bad] st)
  show "errors_at (snd (updateInvoice env id' prevState formData)) ''status'' =
        Some (map issue_message (issues_of (parse_status (formData_get formData ''status''))))"
    using c by (simp add: invalid_run(8) [OF bad])
next
  assume none: "formData_get formData ''status'' = None"
  then have st: "parse_status (formData_get formData ''status'') =
      Inl [\<lparr>issue_code = invalid_type, issue_path = [''status''],
            issue_message = ''Please select an invoice status.''\<rparr>]"
    by (simp add: parse_status_cases)
  then have bad: "isl (FormSchema_omit_id_date_safeParse (submitted formData))"
    by (simp add: safeParse_isl raw_submitted)
  show c: "errors_at (snd (createInvoice env prevState formData)) ''status'' =
        Some [''Please select an invoice status.'']"
    by (simp add: invalid_run(7) [OF bad] st)
  show "errors_at (snd (updateInvoice env id' prevState formData)) ''status'' =
        Some [''Please select an invoice status.'']"
    using c by (simp add: invalid_run(8) [OF bad])
next
  fix s
  assume ok: "formData_get formData ''status'' = Some (Str s) \<and> s \<in> {''pending'', ''paid''}"
  then show st: "parse_status (formData_get formData ''status'') = Inr s"
    by (auto simp add: parse_status_cases)
  show c: "errors_at (snd (createInvoice env prevState formData)) ''status'' = None"
  proof (cases "FormSchema_omit_id_date_safeParse (submitted formData)")
    case (Inl issues)
    then have "isl (FormSchema_omit_id_date_safeParse (submitted formData))" by simp
    from invalid_run(7) [OF this] show ?thesis by (simp add: st)
  next
    case (Inr data)
    then show ?thesis by (simp add: createInvoice_valid split: option.splits)
  qed
  show "errors_at (snd (updateInvoice env id' prevState formData)) ''status'' = None"
  proof (cases "FormSchema_omit_id_date_safeParse (submitted formData)")
    case (Inl issues)
    then have "isl (FormSchema_omit_id_date_safeParse (submitted formData))" by simp
    from invalid_run(8) [OF this] c show ?thesis by simp
  next
    case (Inr data)
    then show ?thesis by (simp add: updateInvoice_valid split: option.splits)
  qed
qed

theorem status_validation_witness:
  "formData_get form_draft ''status'' \<notin> {Some (Str ''pending''), Some (Str ''paid'')} \<and>
   isl (CreateInvoice_safeParse (submitted form_draft)) \<and>
   isl (UpdateInvoice_safeParse (submitted form_draft)) \<and>
   issues_of (parse_status (formData_get form_draft ''status'')) \<noteq> [] \<and>
   formData_get form_no_status ''status'' = None \<and>
   errors_at (snd (createInvoice env_ok initialState form_no_status)) ''status'' =
     Some [''Please select an invoice status.''] \<and>
   errors_at (snd (updateInvoice env_ok ''inv-1'' initialState form_no_status)) ''status'' =
     Some [''Please select an invoice status.''] \<and>
   formData_get form_paid ''status'' = Some (Str ''paid'') \<and>
   parse_status (formData_get form_paid ''status'') = Inr ''paid'' \<and>
   errors_at (snd (createInvoice env_ok initialState form_paid)) ''status'' = None"
proof -
  have draft: "formData_get form_draft ''status'' \<notin> {Some (Str ''pending''), Some (Str ''paid'')}"
    by (simp add: form_draft_def formData_get_def)
  have missing: "formData_get form_no_status ''status'' = None"
    by (simp add: form_no_status_def formData_get_def)
  have paid: "formData_get form_paid ''status'' = Some (Str ''paid'') \<and> ''paid'' \<in> {''pending'', ''paid''}"
    by (simp add: form_paid_def formData_get_def)
  note d = status_validation
             [where formData = form_draft and env = env_ok and prevState = initialState
                and id' = "''inv-1''"]
  note m = status_validation
             [where formData = form_no_status and env = env_ok and prevState = initialState
                and id' = "''inv-1''"]
  note p = status_validation
             [where formData = form_paid and env = env_ok and prevState = initialState
                and id' = "''inv-1''"]
  from d draft have 1:
    "isl (CreateInvoice_safeParse (submitted form_draft)) \<and>
     isl (UpdateInvoice_safeParse (submitted form_draft)) \<and>
     issues_of (parse_status (formData_get form_draft ''status'')) \<noteq> []"
    by blast
  from m missing have 2:
    "errors_at (snd (createInvoice env_ok initialState form_no_status)) ''status'' =
       Some [''Please select an invoice status.''] \<and>
     errors_at (snd (updateInvoice env_ok ''inv-1'' initialState form_no_status)) ''status'' =
       Some [''Please select an invoice status.'']"
    by blast
  from p paid have 3:
    "parse_status (formData_get form_paid ''status'') = Inr ''paid'' \<and>
     errors_at (snd (createInvoice env_ok initialState form_paid)) ''status'' = None"
    by blast
  from draft missing paid 1 2 3 show ?thesis by blast
qed

text \<open>
  C5. When validation and the write both succeed, \<open>createInvoice\<close> and \<open>updateInvoice\<close>
  call \<open>revalidatePath\<close> on the listing route and then \<open>redirect\<close> to it; they end
  redirected and never return a state.
\<close>

theorem success_revalidates_then_redirects:
  "(CreateInvoice_safeParse (submitted formData) = Inr data \<and> sql env (insert_of env data) = None \<longrightarrow>
      createInvoice env prevState formData =
        ([Sql (insert_of env data), RevalidatePath ''/dashboard/invoices'',
          Redirect ''/dashboard/invoices''],
         Redirected ''/dashboard/invoices'') \<and>
      (\<forall>st. snd (createInvoice env prevState formData) \<noteq> Returned st)) \<and>
   (UpdateInvoice_safeParse (submitted formData) = Inr data \<and> sql env (update_of id' data) = None \<longrightarrow>
      updateInvoice env id' prevState formData =
        ([Sql (update_of id' data), RevalidatePath ''/dashboard/invoices'',
          Redirect ''/dashboard/invoices''],
         Redirected ''/dashboard/invoices'') \<and>
      (\<forall>st. snd (updateInvoice env id' prevState formData) \<noteq> Returned st))"
  by (simp add: Create_Update_safeParse createInvoice_valid updateInvoice_valid)

theorem success_revalidates_then_redirects_witness:
  "CreateInvoice_safeParse (submitted form_paid) = Inr data_paid \<and>
   sql env_ok (insert_of env_ok data_paid) = None \<and>
   createInvoice env_ok initialState form_paid =
     ([Sql (insert_of env_ok data_paid), RevalidatePath ''/dashboard/invoices'',
       Redirect ''/dashboard/invoices''],
      Redirected ''/dashboard/invoices'') \<and>
   UpdateInvoice_safeParse (submitted form_paid) = Inr data_paid \<and>
   sql env_ok (update_of ''inv-1'' data_paid) = None \<and>
   updateInvoice env_ok ''inv-1'' initialState form_paid =
     ([Sql (update_of ''inv-1'' data_paid), RevalidatePath ''/dashboard/invoices'',
       Redirect ''/dashboard/invoices''],
      Redirected ''/dashboard/invoices'')"
proof -
  have ok: "CreateInvoice_safeParse (submitted form_paid) = Inr data_paid"
    "UpdateInvoice_safeParse (submitted form_paid) = Inr data_paid"
    by (simp_all add: paid_parses CreateInvoice_safeParse_def UpdateInvoice_safeParse_def)
  have up: "sql env_ok (insert_of env_ok data_paid) = None"
    "sql env_ok (update_of ''inv-1'' data_paid) = None"
    by (simp_all add: env_ok_def)
  from ok up
    success_revalidates_then_redirects
      [where formData = form_paid and data = data_paid and env = env_ok
         and prevState = initialState and id' = "''inv-1''"]
  show ?thesis by blast
qed

text \<open>
  C6. When validation fails, \<open>createInvoice\<close> and \<open>updateInvoice\<close> make no external call
  at all (no write, no \<open>revalidatePath\<close>, no \<open>redirect\<close>) and return a state with the
  summary message and, for each field, exactly the messages of the issues that field
  raised: a non-empty list for every offending field, nothing for the others. At least
  one field is offending.
\<close>

theorem validation_failure_returns_early:
  "(isl (CreateInvoice_safeParse (submitted formData)) \<longrightarrow>
      createInvoice env prevState formData =
        ([], Returned (Some \<lparr>errors = Some (fieldErrors (issues_of (CreateInvoice_safeParse (submitted formData)))),
                              message = Some ''Missing Fields. Failed to Create Invoice.''\<rparr>)) \<and>
      (\<forall>k. errors_at (snd (createInvoice env prevState formData)) k =
             (if field_issues formData k = [] then None
              else Some (map issue_message (field_issues formData k)))) \<and>
      (\<exists>k. field_issues formData k \<noteq> [])) \<and>
   (isl (UpdateInvoice_safeParse (submitted formData)) \<longrightarrow>
      updateInvoice env id' prevState formData =
        ([], Returned (Some \<lparr>errors = Some (fieldErrors (issues_of (UpdateInvoice_safeParse (submitted formData)))),
                              message = Some ''Missing Fields. Failed to Update Invoice.''\<rparr>)) \<and>
      (\<forall>k. errors_at (snd (updateInvoice env id' prevState formData)) k =
             (if field_issues formData k = [] then None
              else Some (map issue_message (field_issues formData k)))) \<and>
      (\<exists>k. field_issues formData k \<noteq> []))"
proof -
  have main: "createInvoice env prevState formData =
        ([], Returned (Some \<lparr>errors = Some (fieldErrors (issues_of (FormSchema_omit_id_date_safeParse (submitted formData)))),
                              message = Some ''Missing Fields. Failed to Create Invoice.''\<rparr>)) \<and>
      updateInvoice env id' prevState formData =
        ([], Returned (Some \<lparr>errors = Some (fieldErrors (issues_of (FormSchema_omit_id_date_safeParse (submitted formData)))),
                              message = Some ''Missing Fields. Failed to Update Invoice.''\<rparr>)) \<and>
      (\<forall>k. fieldErrors (issues_of (FormSchema_omit_id_date_safeParse (submitted formData))) k =
             (if field_issues formData k = [] then None
              else Some (map issue_message (field_issues formData k)))) \<and>
      (\<exists>k. field_issues formData k \<noteq> [])"
    if bad: "isl (FormSchema_omit_id_date_safeParse (submitted formData))"
  proof -
    from bad obtain issues
      where issues: "FormSchema_omit_id_date_safeParse (submitted formData) = Inl issues"
      by (cases "FormSchema_omit_id_date_safeParse (submitted formData)") simp_all
    show ?thesis
      using createInvoice_invalid [OF issues, of env prevState]
        updateInvoice_invalid [OF issues, of env id' prevState]
        fieldErrors_field_issues [OF issues] some_field_offends [OF bad]
      by (simp add: issues)
  qed
  show ?thesis
    using main by (simp add: Create_Update_safeParse)
qed

theorem validation_failure_returns_early_witness:
  "isl (CreateInvoice_safeParse (submitted form_no_status)) \<and>
   isl (UpdateInvoice_safeParse (submitted form_no_status)) \<and>
   fst (createInvoice env_ok initialState form_no_status) = [] \<and>
   fst (updateInvoice env_ok ''inv-1'' initialState form_no_status) = [] \<and>
   errors_at (snd (createInvoice env_ok initialState form_no_status)) ''status'' =
     Some [''Please select an invoice status.''] \<and>
   errors_at (snd (updateInvoice env_ok ''inv-1'' initialState form_no_status)) ''status'' =
     Some [''Please select an invoice status.''] \<and>
   errors_at (snd (createInvoice env_ok initialState form_no_status)) ''amount'' = None \<and>
   errors_at (snd (createInvoice env_ok initialState form_no_status)) ''customerId'' = None"
proof -
  have bad: "isl (CreateInvoice_safeParse (submitted form_no_status))"
    "isl (UpdateInvoice_safeParse (submitted form_no_status))"
    by (simp_all add: form_no_status_def safeParse_eval Number_eval)
  have fields:
    "field_issues form_no_status ''status'' =
       [\<lparr>issue_code = invalid_type, issue_path = [''status''],
         issue_message = ''Please select an invoice status.''\<rparr>]"
    "field_issues form_no_status ''amount'' = []"
    "field_issues form_no_status ''customerId'' = []"
    by (simp_all add: field_issues_def form_no_status_def safeParse_eval Number_eval)
  note v = validation_failure_returns_early
             [where formData = form_no_status and env = env_ok and prevState = initialState
                and id' = "''inv-1''"]
  from v bad have c:
    "createInvoice env_ok initialState form_no_status =
       ([], Returned (Some \<lparr>errors = Some (fieldErrors (issues_of (CreateInvoice_safeParse (submitted form_no_status)))),
                             message = Some ''Missing Fields. Failed to Create Invoice.''\<rparr>))"
    and ce: "\<And>k. errors_at (snd (createInvoice env_ok initialState form_no_status)) k =
             (if field_issues form_no_status k = [] then None
              else Some (map issue_message (field_issues form_no_status k)))"
    and u: "updateInvoice env_ok ''inv-1'' initialState form_no_status =
       ([], Returned (Some \<lparr>errors = Some (fieldErrors (issues_of (UpdateInvoice_safeParse (submitted form_no_status)))),
                             message = Some ''Missing Fields. Failed to Update Invoice.''\<rparr>))"
    and ue: "\<And>k. errors_at (snd (updateInvoice env_ok ''inv-1'' initialState form_no_status)) k =
             (if field_issues form_no_status k = [] then None
              else Some (map issue_message (field_issues form_no_status k)))"
    by blast+
  have "fst (createInvoice env_ok initialState form_no_status) = []"
    "fst (updateInvoice env_ok ''inv-1'' initialState form_no_status) = []"
    by (simp_all only: c u fst_conv)
  moreover have
    "errors_at (snd (createInvoice env_ok initialState form_no_status)) ''status'' =
       Some [''Please select an invoice status.'']"
    "errors_at (snd (updateInvoice env_ok ''inv-1'' initialState form_no_status)) ''status'' =
       Some [''Please select an invoice status.'']"
    "errors_at (snd (createInvoice env_ok initialState form_no_status)) ''amount'' = None"
    "errors_at (snd (createInvoice env_ok initialState form_no_status)) ''customerId'' = None"
    by (simp_all add: ce ue fields)
  ultimately show ?thesis using bad by blast
qed

text \<open>
  C7. \<open>deleteInvoice\<close> never throws, for any id: when the delete runs it invalidates the
  listing cache and returns nothing, and when the delete throws any error it returns a
  state with the database-error message.
\<close>

theorem deleteInvoice_never_throws:
  "(sql env (DELETE_FROM_invoices id') = None \<longrightarrow>
      deleteInvoice env id' =
        ([Sql (DELETE_FROM_invoices id'), RevalidatePath ''/dashboard/invoices''], Returned None)) \<and>
   (\<forall>error. sql env (DELETE_FROM_invoices id') = Some error \<longrightarrow>
      deleteInvoice env id' =
        ([Sql (DELETE_FROM_invoices id')],
         Returned (Some \<lparr>errors = None,
                          message = Some ''Database Error: Failed to Delete Invoice.''\<rparr>))) \<and>
   (\<forall>e. snd (deleteInvoice env id') \<noteq> Thrown e)"
  by (simp add: deleteInvoice_def Let_def split: option.splits)

theorem deleteInvoice_never_throws_witness:
  "sql env_ok (DELETE_FROM_invoices ''no-such-id'') = None \<and>
   deleteInvoice env_ok ''no-such-id'' =
     ([Sql (DELETE_FROM_invoices ''no-such-id''), RevalidatePath ''/dashboard/invoices''],
      Returned None) \<and>
   sql env_db_down (DELETE_FROM_invoices ''inv-1'') = Some (OtherError ''connect ECONNREFUSED'') \<and>
   deleteInvoice env_db_down ''inv-1'' =
     ([Sql (DELETE_FROM_invoices ''inv-1'')],
      Returned (Some \<lparr>errors = None,
                       message = Some ''Database Error: Failed to Delete Invoice.''\<rparr>))"
proof -
  have up: "sql env_ok (DELETE_FROM_invoices ''no-such-id'') = None"
    by (simp add: env_ok_def)
  have down: "sql env_db_down (DELETE_FROM_invoices ''inv-1'') =
                Some (OtherError ''connect ECONNREFUSED'')"
    by (simp add: env_db_down_def)
  from up down
    deleteInvoice_never_throws [where env = env_ok and id' = "''no-such-id''"]
    deleteInvoice_never_throws [where env = env_db_down and id' = "''inv-1''"]
  show ?thesis by blast
qed

text \<open>
  C8. \<open>deleteInvoice\<close> never redirects: on success its only calls are the delete and
  \<open>revalidatePath\<close> on the listing route, whereas \<open>createInvoice\<close> and
  \<open>updateInvoice\<close> end redirected on success.
\<close>

theorem deleteInvoice_never_redirects:
  "(\<forall>p. Redirect p \<notin> set (fst (deleteInvoice env id'))) \<and>
   (\<forall>p. snd (deleteInvoice env id') \<noteq> Redirected p) \<and>
   (sql env (DELETE_FROM_invoices id') = None \<longrightarrow>
      fst (deleteInvoice env id') =
        [Sql (DELETE_FROM_invoices id'), RevalidatePath ''/dashboard/invoices'']) \<and>
   (FormSchema_omit_id_date_safeParse (submitted formData) = Inr data \<longrightarrow>
      (sql env (insert_of env data) = None \<longrightarrow>
         snd (createInvoice env prevState formData) = Redirected ''/dashboard/invoices'') \<and>
      (sql env (update_of id' data) = None \<longrightarrow>
         snd (updateInvoice env id' prevState formData) = Redirected ''/dashboard/invoices''))"
  by (simp add: deleteInvoice_def Let_def createInvoice_valid updateInvoice_valid split: option.splits)

theorem deleteInvoice_never_redirects_witness:
  "sql env_ok (DELETE_FROM_invoices ''inv-1'') = None \<and>
   fst (deleteInvoice env_ok ''inv-1'') =
     [Sql (DELETE_FROM_invoices ''inv-1''), RevalidatePath ''/dashboard/invoices''] \<and>
   Redirect ''/dashboard/invoices'' \<notin> set (fst (deleteInvoice env_ok ''inv-1'')) \<and>
   snd (deleteInvoice env_ok ''inv-1'') \<noteq> Redirected ''/dashboard/invoices'' \<and>
   FormSchema_omit_id_date_safeParse (submitted form_paid) = Inr data_paid \<and>
   snd (createInvoice env_ok initialState form_paid) = Redirected ''/dashboard/invoices'' \<and>
   snd (updateInvoice env_ok ''inv-1'' initialState form_paid) = Redirected ''/dashboard/invoices''"
proof -
  have up: "sql env_ok (DELETE_FROM_invoices ''inv-1'') = None"
    "sql env_ok (insert_of env_ok data_paid) = None"
    "sql env_ok (update_of ''inv-1'' data_paid) = None"
    by (simp_all add: env_ok_def)
  from up paid_parses
    deleteInvoice_never_redirects
      [where env = env_ok and id' = "''inv-1''" and formData = form_paid and data = data_paid
         and prevState = initialState]
  show ?thesis by blast
qed

text \<open>
  C9. Every row \<open>createInvoice\<close> inserts carries the date of the server's clock, which is
  its UTC day as \<open>YYYY-MM-DD\<close> (for the years 0 to 9999); the parsed record and the whole
  run depend on the form only through its \<open>customerId\<close>, \<open>amount\<close> and \<open>status\<close>
  entries, so \<open>id\<close> and \<open>date\<close> entries are ignored.
\<close>

theorem createInvoice_server_date_ignores_id_and_date:
  "written (fst (createInvoice env prevState formData)) =
     (case CreateInvoice_safeParse (submitted formData) of
        Inl issues \<Rightarrow> []
      | Inr data \<Rightarrow>
          [INSERT_INTO_invoices (customerId data) (num_times (Fin 100) (amount data)) (status data)
             (split_T_0 (toISOString (now env)))]) \<and>
   (0 \<le> utcFullYear (now env) \<and> utcFullYear (now env) \<le> 9999 \<longrightarrow>
      split_T_0 (toISOString (now env)) =
        pad 4 (nat (utcFullYear (now env))) @ ''-'' @ pad 2 (utcMonth (now env) + 1) @ ''-'' @
        pad 2 (utcDate (now env))) \<and>
   (formData_get formData' ''customerId'' = formData_get formData ''customerId'' \<and>
    formData_get formData' ''amount'' = formData_get formData ''amount'' \<and>
    formData_get formData' ''status'' = formData_get formData ''status'' \<longrightarrow>
      CreateInvoice_safeParse (submitted formData') = CreateInvoice_safeParse (submitted formData) \<and>
      createInvoice env prevState' formData' = createInvoice env prevState formData) \<and>
   createInvoice env prevState ((''id'', v) # (''date'', w) # formData) =
     createInvoice env prevState formData"
proof (intro conjI)
  show "written (fst (createInvoice env prevState formData)) =
     (case CreateInvoice_safeParse (submitted formData) of
        Inl issues \<Rightarrow> []
      | Inr data \<Rightarrow>
          [INSERT_INTO_invoices (customerId data) (num_times (Fin 100) (amount data)) (status data)
             (split_T_0 (toISOString (now env)))])"
    by (simp add: written_createInvoice Create_Update_safeParse insert_of_def split: sum.splits)
  show "0 \<le> utcFullYear (now env) \<and> utcFullYear (now env) \<le> 9999 \<longrightarrow>
      split_T_0 (toISOString (now env)) =
        pad 4 (nat (utcFullYear (now env))) @ ''-'' @ pad 2 (utcMonth (now env) + 1) @ ''-'' @
        pad 2 (utcDate (now env))"
    using split_T_0_toISOString by blast
  show "formData_get formData' ''customerId'' = formData_get formData ''customerId'' \<and>
    formData_get formData' ''amount'' = formData_get formData ''amount'' \<and>
    formData_get formData' ''status'' = formData_get formData ''status'' \<longrightarrow>
      CreateInvoice_safeParse (submitted formData') = CreateInvoice_safeParse (submitted formData) \<and>
      createInvoice env prevState' formData' = createInvoice env prevState formData"
    using submitted_cong [of formData' formData] createInvoice_submitted [of formData' formData]
    by simp
  have "submitted ((''id'', v) # (''date'', w) # formData) = submitted formData"
    by (simp add: submitted_def formData_get_def)
  then show "createInvoice env prevState ((''id'', v) # (''date'', w) # formData) =
     createInvoice env prevState formData"
    by (rule createInvoice_submitted)
qed

theorem createInvoice_server_date_ignores_id_and_date_witness:
  "0 \<le> utcFullYear (now env_ok) \<and> utcFullYear (now env_ok) \<le> 9999 \<and>
   split_T_0 (toISOString (now env_ok)) = ''2024-05-17'' \<and>
   written (fst (createInvoice env_ok initialState form_paid)) =
     [INSERT_INTO_invoices ''c1'' (Fin 1250) ''paid'' ''2024-05-17''] \<and>
   formData_get ((''date'', Str ''1999-01-01'') # form_paid @ [(''id'', Str ''inv-9'')]) ''customerId'' =
     formData_get form_paid ''customerId'' \<and>
   formData_get ((''date'', Str ''1999-01-01'') # form_paid @ [(''id'', Str ''inv-9'')]) ''amount'' =
     formData_get form_paid ''amount'' \<and>
   formData_get ((''date'', Str ''1999-01-01'') # form_paid @ [(''id'', Str ''inv-9'')]) ''status'' =
     formData_get form_paid ''status'' \<and>
   createInvoice env_ok initialState
       ((''date'', Str ''1999-01-01'') # form_paid @ [(''id'', Str ''inv-9'')]) =
     createInvoice env_ok initialState form_paid \<and>
   createInvoice env_ok initialState
       ((''id'', Str ''inv-9'') # (''date'', Str ''1999-01-01'') # form_paid) =
     createInvoice env_ok initialState form_paid"
proof -
  have year: "0 \<le> utcFullYear (now env_ok) \<and> utcFullYear (now env_ok) \<le> 9999"
    by (simp add: env_ok_def noon_def)
  have agree:
    "formData_get ((''date'', Str ''1999-01-01'') # form_paid @ [(''id'', Str ''inv-9'')]) ''customerId'' =
       formData_get form_paid ''customerId'' \<and>
     formData_get ((''date'', Str ''1999-01-01'') # form_paid @ [(''id'', Str ''inv-9'')]) ''amount'' =
       formData_get form_paid ''amount'' \<and>
     formData_get ((''date'', Str ''1999-01-01'') # form_paid @ [(''id'', Str ''inv-9'')]) ''status'' =
       formData_get form_paid ''status''"
    by (simp add: form_paid_def formData_get_def)
  note t = createInvoice_server_date_ignores_id_and_date
        [where env = env_ok and prevState = initialState and prevState' = initialState
           and formData = form_paid
           and formData' = "(''date'', Str ''1999-01-01'') # form_paid @ [(''id'', Str ''inv-9'')]"
           and v = "Str ''inv-9''" and w = "Str ''1999-01-01''"]
  from t year have
    "split_T_0 (toISOString (now env_ok)) =
       pad 4 (nat (utcFullYear (now env_ok))) @ ''-'' @ pad 2 (utcMonth (now env_ok) + 1) @ ''-'' @
       pad 2 (utcDate (now env_ok))"
    by blast
  then have day: "split_T_0 (toISOString (now env_ok)) = ''2024-05-17''"
    by (simp only: noon_day)
  from t have
    "written (fst (createInvoice env_ok initialState form_paid)) =
       (case CreateInvoice_safeParse (submitted form_paid) of
          Inl issues \<Rightarrow> []
        | Inr data \<Rightarrow>
            [INSERT_INTO_invoices (customerId data) (num_times (Fin 100) (amount data)) (status data)
               (split_T_0 (toISOString (now env_ok)))])"
    by blast
  then have row:
    "written (fst (createInvoice env_ok initialState form_paid)) =
       [INSERT_INTO_invoices ''c1'' (Fin 1250) ''paid'' ''2024-05-17'']"
    by (simp add: CreateInvoice_safeParse_def paid_parses data_paid_def day double_examples)
  from t agree have same:
    "createInvoice env_ok initialState
       ((''date'', Str ''1999-01-01'') # form_paid @ [(''id'', Str ''inv-9'')]) =
     createInvoice env_ok initialState form_paid"
    by blast
  from t have front:
    "createInvoice env_ok initialState
       ((''id'', Str ''inv-9'') # (''date'', Str ''1999-01-01'') # form_paid) =
     createInvoice env_ok initialState form_paid"
    by blast
  from year day row agree same front show ?thesis by blast
qed

text \<open>
  C10. When the form has no amount entry, the missing value is coerced to the number 0
  and validation fails with the single amount message "Please enter an amount greater
  than $0."; and whenever validation fails, for whatever reason, the summary message is
  the fixed "Missing Fields. Failed to Create Invoice." (for \<open>updateInvoice\<close>,
  "... Update ..."), also when every field is present.
\<close>

theorem missing_amount_coerced_to_zero:
  "(formData_get formData ''amount'' = None \<longrightarrow>
      Number (formData_get formData ''amount'') = Fin 0 \<and>
      isl (CreateInvoice_safeParse (submitted formData)) \<and>
      isl (UpdateInvoice_safeParse (submitted formData)) \<and>
      errors_at (snd (createInvoice env prevState formData)) ''amount'' =
        Some [''Please enter an amount greater than $0.''] \<and>
      errors_at (snd (updateInvoice env id' prevState formData)) ''amount'' =
        Some [''Please enter an amount greater than $0.''] \<and>
      message_of (snd (createInvoice env prevState formData)) =
        Some ''Missing Fields. Failed to Create Invoice.'' \<and>
      message_of (snd (updateInvoice env id' prevState formData)) =
        Some ''Missing Fields. Failed to Update Invoice.'') \<and>
   (isl (CreateInvoice_safeParse (submitted formData)) \<longrightarrow>
      message_of (snd (createInvoice env prevState formData)) =
        Some ''Missing Fields. Failed to Create Invoice.'') \<and>
   (isl (UpdateInvoice_safeParse (submitted formData)) \<longrightarrow>
      message_of (snd (updateInvoice env id' prevState formData)) =
        Some ''Missing Fields. Failed to Update Invoice.'')"
proof (intro conjI impI)
  assume none: "formData_get formData ''amount'' = None"
  then show zero: "Number (formData_get formData ''amount'') = Fin 0"
    by (simp add: Number_def)
  then have amt: "parse_amount (formData_get formData ''amount'') =
      Inl [\<lparr>issue_code = too_small, issue_path = [''amount''],
            issue_message = ''Please enter an amount greater than $0.''\<rparr>]"
    using parse_amount_le [of "formData_get formData ''amount''"] by simp
  then have bad: "isl (FormSchema_omit_id_date_safeParse (submitted formData))"
    by (simp add: safeParse_isl raw_submitted)
  then show "isl (CreateInvoice_safeParse (submitted formData))"
    and "isl (UpdateInvoice_safeParse (submitted formData))"
    by (simp_all add: Create_Update_safeParse)
  show c: "errors_at (snd (createInvoice env prevState formData)) ''amount'' =
        Some [''Please enter an amount greater than $0.'']"
    by (simp add: invalid_run(6) [OF bad] amt)
  show "errors_at (snd (updateInvoice env id' prevState formData)) ''amount'' =
        Some [''Please enter an amount greater than $0.'']"
    using c by (simp add: invalid_run(8) [OF bad])
  show "message_of (snd (createInvoice env prevState formData)) =
        Some ''Missing Fields. Failed to Create Invoice.''"
    by (rule invalid_run(3) [OF bad])
  show "message_of (snd (updateInvoice env id' prevState formData)) =
        Some ''Missing Fields. Failed to Update Invoice.''"
    by (rule invalid_run(4) [OF bad])
next
  assume "isl (CreateInvoice_safeParse (submitted formData))"
  then have "isl (FormSchema_omit_id_date_safeParse (submitted formData))"
    by (simp add: Create_Update_safeParse)
  then show "message_of (snd (createInvoice env prevState formData)) =
        Some ''Missing Fields. Failed to Create Invoice.''"
    by (rule invalid_run(3))
next
  assume "isl (UpdateInvoice_safeParse (submitted formData))"
  then have "isl (FormSchema_omit_id_date_safeParse (submitted formData))"
    by (simp add: Create_Update_safeParse)
  then show "message_of (snd (updateInvoice env id' prevState formData)) =
        Some ''Missing Fields. Failed to Update Invoice.''"
    by (rule invalid_run(4))
qed

theorem missing_amount_coerced_to_zero_witness:
  "formData_get form_no_amount ''amount'' = None \<and>
   Number (formData_get form_no_amount ''amount'') = Fin 0 \<and>
   errors_at (snd (createInvoice env_ok initialState form_no_amount)) ''amount'' =
     Some [''Please enter an amount greater than $0.''] \<and>
   errors_at (snd (updateInvoice env_ok ''inv-1'' initialState form_no_amount)) ''amount'' =
     Some [''Please enter an amount greater than $0.''] \<and>
   message_of (snd (createInvoice env_ok initialState form_no_amount)) =
     Some ''Missing Fields. Failed to Create Invoice.'' \<and>
   formData_get form_negative ''customerId'' = Some (Str ''c1'') \<and>
   formData_get form_negative ''amount'' = Some (Str ''-5'') \<and>
   formData_get form_negative ''status'' = Some (Str ''pending'') \<and>
   isl (CreateInvoice_safeParse (submitted form_negative)) \<and>
   isl (UpdateInvoice_safeParse (submitted form_negative)) \<and>
   message_of (snd (createInvoice env_ok initialState form_negative)) =
     Some ''Missing Fields. Failed to Create Invoice.'' \<and>
   message_of (snd (updateInvoice env_ok ''inv-1'' initialState form_negative)) =
     Some ''Missing Fields. Failed to Update Invoice.''"
proof -
  have absent: "formData_get form_no_amount ''amount'' = None"
    by (simp add: form_no_amount_def formData_get_def)
  have present: "formData_get form_negative ''customerId'' = Some (Str ''c1'')"
    "formData_get form_negative ''amount'' = Some (Str ''-5'')"
    "formData_get form_negative ''status'' = Some (Str ''pending'')"
    by (simp_all add: form_negative_def formData_get_def)
  have bad: "isl (CreateInvoice_safeParse (submitted form_negative))"
    "isl (UpdateInvoice_safeParse (submitted form_negative))"
    by (simp_all add: form_negative_def safeParse_eval Number_eval)
  note a = missing_amount_coerced_to_zero
        [where formData = form_no_amount and env = env_ok and prevState = initialState
           and id' = "''inv-1''"]
  note n = missing_amount_coerced_to_zero
        [where formData = form_negative and env = env_ok and prevState = initialState
           and id' = "''inv-1''"]
  from a absent have 1:
    "Number (formData_get form_no_amount ''amount'') = Fin 0 \<and>
     errors_at (snd (createInvoice env_ok initialState form_no_amount)) ''amount'' =
       Some [''Please enter an amount greater than $0.''] \<and>
     errors_at (snd (updateInvoice env_ok ''inv-1'' initialState form_no_amount)) ''amount'' =
       Some [''Please enter an amount greater than $0.''] \<and>
     message_of (snd (createInvoice env_ok initialState form_no_amount)) =
       Some ''Missing Fields. Failed to Create Invoice.''"
    by blast
  from n bad have 2:
    "message_of (snd (createInvoice env_ok initialState form_negative)) =
       Some ''Missing Fields. Failed to Create Invoice.'' \<and>
     message_of (snd (updateInvoice env_ok ''inv-1'' initialState form_negative)) =
       Some ''Missing Fields. Failed to Update Invoice.''"
    by blast
  from absent present bad 1 2 show ?thesis by blast
qed

end
